theory Spec2Isabelle
  imports Main "HOL-Library.Word"
begin

section \<open>Data model of process\_list.cpp\<close>

text \<open>
  The module enumerates the processes of a Windows host and reads each one's command
  line out of the target's memory. The Windows API is not part of the repository: every
  answer the operating system gives is a field of the records \<open>target_process\<close> and
  \<open>os\<close> below, and the theorems hold for all of them.
\<close>

type_synonym wchar_t = "16 word"
type_synonym BYTE = "8 word"
type_synonym USHORT = "16 word"
type_synonym DWORD = "32 word"
type_synonym NTSTATUS = "32 word"
type_synonym PVOID = "64 word"

definition MAX_PATH :: nat where
  "MAX_PATH = 260"

definition STATUS_SUCCESS :: NTSTATUS where
  "STATUS_SUCCESS = 0"

definition ERROR_NOT_ALL_ASSIGNED :: DWORD where
  "ERROR_NOT_ALL_ASSIGNED = 1300"

text \<open>A wide string literal \<open>L"..."\<close>, without its terminator.\<close>

definition L :: "string \<Rightarrow> wchar_t list" where
  "L s = map of_char s"

record UNICODE_STRING =
  Length :: USHORT
  MaximumLength :: USHORT
  Buffer :: PVOID

record RTL_USER_PROCESS_PARAMETERS =
  ImagePathName :: UNICODE_STRING
  CommandLine :: UNICODE_STRING

record PEB =
  BeingDebugged :: BYTE
  LoaderData :: PVOID
  ProcessParameters :: PVOID

record PROCESS_BASIC_INFORMATION =
  PebBaseAddress :: PVOID
  UniqueProcessId :: "64 word"

text \<open>
  The two fields of \<open>PROCESSENTRY32W\<close> the module reads. A name is the text of the
  array before its terminator.
\<close>

record PROCESSENTRY32W =
  th32ProcessID :: DWORD
  szExeFile :: "wchar_t list"

subsection \<open>The operating system's answers\<close>

text \<open>
  What the system answers about one target process: whether \<open>OpenProcess\<close> gives a
  handle; what \<open>GetModuleBaseNameW\<close> returns and leaves in the name buffer, given the
  buffer's text and capacity; the status and block of \<open>NtQueryInformationProcess\<close>;
  the structures found at an address of the target (\<open>None\<close>: the read fails) and the
  target's readable bytes.
\<close>

record target_process =
  OpenProcess_ok :: bool
  GetModuleBaseNameW_out :: "wchar_t list \<Rightarrow> nat \<Rightarrow> DWORD \<times> wchar_t list"
  NtQueryInformationProcess_out :: "NTSTATUS \<times> PROCESS_BASIC_INFORMATION"
  peb_at :: "PVOID \<Rightarrow> PEB option"
  params_at :: "PVOID \<Rightarrow> RTL_USER_PROCESS_PARAMETERS option"
  memory :: "PVOID \<Rightarrow> BYTE option"

text \<open>
  The system as one enumeration pass meets it. The snapshot is the sequence of entries
  that \<open>Process32FirstW\<close> and \<open>Process32NextW\<close> deliver before one of them fails
  (\<open>None\<close>: \<open>CreateToolhelp32Snapshot\<close> returns \<open>INVALID_HANDLE_VALUE\<close>).
\<close>

record os =
  OpenProcessToken_ok :: bool
  LookupPrivilegeValue_ok :: bool
  AdjustTokenPrivileges_ok :: bool
  GetLastError_adjust :: DWORD
  CreateToolhelp32Snapshot_out :: "PROCESSENTRY32W list option"
  GetLastError_first :: DWORD
  GetModuleHandleW_ntdll_ok :: bool
  GetProcAddress_ok :: bool
  target :: "DWORD \<Rightarrow> target_process"

subsection \<open>The module's state and its effects\<close>

datatype HANDLE = TokenHandle | ProcessHandle DWORD | SnapshotHandle

datatype wcout_line = Line string | ErrorCode DWORD

text \<open>
  What the callback finds behind its third argument: a null pointer, the bytes of a
  live array (\<open>None\<close> for a byte never written), or a pointer to a released array.
\<close>

datatype cmdline_arg = NULL | Text "BYTE option list" | Dangling

record callback_call =
  cb_pid :: DWORD
  cb_process_name :: "wchar_t list"
  cb_cmdline :: cmdline_arg

text \<open>
  The state: the global flag, the handles open at the moment, the free store (one cell
  per array ever allocated, \<open>None\<close> once released), the lines written to
  \<open>std::wcout\<close> and the callback's invocations, oldest first.
\<close>

record state =
  cancelRequested :: bool
  handles :: "HANDLE list"
  heap :: "BYTE option list option list"
  wcout :: "wcout_line list"
  calls :: "callback_call list"

definition initial_state :: state where
  "initial_state = \<lparr>cancelRequested = False, handles = [], heap = [], wcout = [], calls = []\<rparr>"

definition open_handle :: "HANDLE \<Rightarrow> state \<Rightarrow> state" where
  "open_handle h s = s\<lparr>handles := h # handles s\<rparr>"

definition CloseHandle :: "HANDLE \<Rightarrow> state \<Rightarrow> state" where
  "CloseHandle h s = s\<lparr>handles := remove1 h (handles s)\<rparr>"

definition print :: "wcout_line \<Rightarrow> state \<Rightarrow> state" where
  "print l s = s\<lparr>wcout := wcout s @ [l]\<rparr>"

text \<open>
  \<open>new wchar_t[n]\<close>: a fresh array of \<open>n\<close> units, no byte of it written yet. The
  module asks for at most 32768 units; the allocation is taken to succeed.
\<close>

definition new_wchar_t :: "nat \<Rightarrow> state \<Rightarrow> nat \<times> state" where
  "new_wchar_t n s = (length (heap s), s\<lparr>heap := heap s @ [Some (replicate (2 * n) None)]\<rparr>)"

definition delete_array :: "nat \<Rightarrow> state \<Rightarrow> state" where
  "delete_array p s = s\<lparr>heap := (heap s)[p := None]\<rparr>"

definition live_buffers :: "state \<Rightarrow> BYTE option list list" where
  "live_buffers s = List.map_filter id (heap s)"

definition deref :: "state \<Rightarrow> nat option \<Rightarrow> cmdline_arg" where
  "deref s p =
     (case p of None \<Rightarrow> NULL
      | Some q \<Rightarrow>
          if q < length (heap s)
          then (case heap s ! q of None \<Rightarrow> Dangling | Some buf \<Rightarrow> Text buf)
          else Dangling)"

text \<open>The bytes a successful \<open>ReadProcessMemory\<close> stores at the start of array \<open>p\<close>.\<close>

definition write_bytes :: "nat \<Rightarrow> BYTE list \<Rightarrow> state \<Rightarrow> state" where
  "write_bytes p bs s =
     (if p < length (heap s)
      then (case heap s ! p of
              None \<Rightarrow> s
            | Some buf \<Rightarrow> s\<lparr>heap := (heap s)[p := Some (map Some bs @ drop (length bs) buf)]\<rparr>)
      else s)"

text \<open>The assignment \<open>p[k] = w\<close> of one unit, low byte first.\<close>

definition store_wchar :: "nat \<Rightarrow> nat \<Rightarrow> wchar_t \<Rightarrow> state \<Rightarrow> state" where
  "store_wchar p k w s =
     (if p < length (heap s)
      then (case heap s ! p of
              None \<Rightarrow> s
            | Some buf \<Rightarrow>
                s\<lparr>heap := (heap s)[p := Some (buf[2 * k := Some (ucast w),
                                                   2 * k + 1 := Some (ucast (drop_bit 8 w))])]\<rparr>)
      else s)"

text \<open>
  \<open>ReadProcessMemory\<close> with no byte count requested: it succeeds only when the whole
  range is readable, and then yields exactly \<open>n\<close> bytes.
\<close>

definition ReadProcessMemory :: "(PVOID \<Rightarrow> BYTE option) \<Rightarrow> PVOID \<Rightarrow> nat \<Rightarrow> BYTE list option" where
  "ReadProcessMemory mem a n = those (map (\<lambda>i. mem (a + of_nat i)) [0..<n])"

text \<open>
  \<open>wcsncpy_s(dest, n, src, _TRUNCATE)\<close>: as much of \<open>src\<close> as fits before the
  terminator; what \<open>dest\<close> held is overwritten, also when \<open>src\<close> is empty.
\<close>

definition wcsncpy_s_TRUNCATE :: "wchar_t list \<Rightarrow> nat \<Rightarrow> wchar_t list \<Rightarrow> wchar_t list" where
  "wcsncpy_s_TRUNCATE dest n src = take (n - 1) src"

section \<open>The module's functions\<close>

definition EnableDebugPrivilege :: "os \<Rightarrow> state \<Rightarrow> bool \<times> state" where
  "EnableDebugPrivilege w s =
     (if \<not> OpenProcessToken_ok w then (False, s)
      else let s1 = open_handle TokenHandle s in
        if \<not> LookupPrivilegeValue_ok w then (False, s1)
        else if \<not> AdjustTokenPrivileges_ok w then (False, s1)
        else if GetLastError_adjust w = ERROR_NOT_ALL_ASSIGNED then (False, s1)
        else (True, CloseHandle TokenHandle s1))"

text \<open>
  The result is the returned flag, the caller's \<open>*ppszCmdLine\<close>, the text of the
  caller's name buffer, and the state.
\<close>

definition GetProcessCommandLine ::
  "os \<Rightarrow> DWORD \<Rightarrow> nat option \<Rightarrow> wchar_t list \<Rightarrow> nat \<Rightarrow> state
    \<Rightarrow> bool \<times> nat option \<times> wchar_t list \<times> state" where
  "GetProcessCommandLine w dwPid pszCmdLine szProcessName dwNameSize s =
     (let t = target w dwPid; hProcess = ProcessHandle dwPid in
      if \<not> OpenProcess_ok t then (False, pszCmdLine, szProcessName, s)
      else let s1 = open_handle hProcess s;
               (n, szProcessName1) = GetModuleBaseNameW_out t szProcessName dwNameSize in
        if n = 0 then (False, pszCmdLine, szProcessName1, CloseHandle hProcess s1)
        else if \<not> GetModuleHandleW_ntdll_ok w
          then (False, pszCmdLine, szProcessName1, CloseHandle hProcess s1)
        else if \<not> GetProcAddress_ok w
          then (False, pszCmdLine, szProcessName1, CloseHandle hProcess s1)
        else let (status, pbi) = NtQueryInformationProcess_out t in
          if status \<noteq> STATUS_SUCCESS
          then (False, pszCmdLine, szProcessName1, CloseHandle hProcess s1)
          else (case peb_at t (PebBaseAddress pbi) of
              None \<Rightarrow> (False, pszCmdLine, szProcessName1, CloseHandle hProcess s1)
            | Some peb \<Rightarrow>
               (case params_at t (ProcessParameters peb) of
                  None \<Rightarrow> (False, pszCmdLine, szProcessName1, CloseHandle hProcess s1)
                | Some upp \<Rightarrow>
                   let len = unat (Length (CommandLine upp));
                       (p, s2) = new_wchar_t (len div 2 + 1) s1 in
                   (case ReadProcessMemory (memory t) (Buffer (CommandLine upp)) len of
                      None \<Rightarrow>
                        (False, Some p, szProcessName1,
                         CloseHandle hProcess (delete_array p s2))
                    | Some bytes \<Rightarrow>
                        (True, Some p, szProcessName1,
                         CloseHandle hProcess
                           (store_wchar p (len div 2) 0 (write_bytes p bytes s2)))))))"

definition RequestCancellation :: "state \<Rightarrow> state" where
  "RequestCancellation s = s\<lparr>cancelRequested := True\<rparr>"

text \<open>
  The invocation of the callback, which sees what its pointer argument points to. The
  callback is the host's code: what it does to the module, a call of
  \<open>RequestCancellation\<close>, is part of \<open>host_activity\<close> below.
\<close>

definition callback :: "DWORD \<Rightarrow> wchar_t list \<Rightarrow> nat option \<Rightarrow> state \<Rightarrow> state" where
  "callback pid process_name cmdline s =
     s\<lparr>calls := calls s @
        [\<lparr>cb_pid = pid, cb_process_name = process_name, cb_cmdline = deref s cmdline\<rparr>]\<rparr>"

text \<open>The body of the \<open>do\<close> loop of \<open>GetProcessDetails\<close>, for the entry in \<open>pe32\<close>.\<close>

definition loop_body :: "os \<Rightarrow> PROCESSENTRY32W \<Rightarrow> state \<Rightarrow> state" where
  "loop_body w pe32 s =
     (let pszCmdLine = None;
          szProcessName = L ''<unknown>'';
          szProcessName = wcsncpy_s_TRUNCATE szProcessName MAX_PATH (szExeFile pe32);
          (ok, pszCmdLine, szProcessName, s1) =
             GetProcessCommandLine w (th32ProcessID pe32) pszCmdLine szProcessName MAX_PATH s
      in if ok
         then (case pszCmdLine of
                 None \<Rightarrow> callback (th32ProcessID pe32) szProcessName pszCmdLine s1
               | Some p \<Rightarrow>
                   delete_array p (callback (th32ProcessID pe32) szProcessName pszCmdLine s1))
         else callback (th32ProcessID pe32) szProcessName None s1)"

text \<open>
  The flag is shared with the host: \<open>req i\<close> says that \<open>RequestCancellation\<close> is
  called, by the callback or from elsewhere, while the \<open>i\<close>-th entry delivered (from 0)
  is being processed, before the loop condition reads the flag.
\<close>

definition host_activity :: "(nat \<Rightarrow> bool) \<Rightarrow> nat \<Rightarrow> state \<Rightarrow> state" where
  "host_activity req i s = (if req i then RequestCancellation s else s)"

text \<open>
  The \<open>do ... while (Process32NextW(hSnap, &pe32) && !cancelRequested.load())\<close> loop:
  \<open>pe32\<close> is the entry in hand, the list holds the entries that \<open>Process32NextW\<close>
  will still deliver; the flag is read only after \<open>Process32NextW\<close> succeeded.
\<close>

fun do_while :: "os \<Rightarrow> (nat \<Rightarrow> bool) \<Rightarrow> nat \<Rightarrow> PROCESSENTRY32W \<Rightarrow> PROCESSENTRY32W list
    \<Rightarrow> state \<Rightarrow> state" where
  "do_while w req i pe32 [] s = host_activity req i (loop_body w pe32 s)"
| "do_while w req i pe32 (nxt # rest) s =
     (let s1 = host_activity req i (loop_body w pe32 s) in
      if cancelRequested s1 then s1 else do_while w req (Suc i) nxt rest s1)"

definition GetProcessDetails :: "os \<Rightarrow> (nat \<Rightarrow> bool) \<Rightarrow> state \<Rightarrow> state" where
  "GetProcessDetails w req s =
     (let (ok, s1) = EnableDebugPrivilege w s in
      if \<not> ok then print (Line ''Failed to enable debug privilege.'') s1
      else (case CreateToolhelp32Snapshot_out w of
          None \<Rightarrow> print (Line ''Failed to create snapshot.'') s1
        | Some entries \<Rightarrow>
            let s2 = open_handle SnapshotHandle s1 in
            (case entries of
               [] \<Rightarrow>
                 print (Line ''Failed to get first process from snapshot.'')
                   (CloseHandle SnapshotHandle (print (ErrorCode (GetLastError_first w)) s2))
             | pe32 # rest \<Rightarrow> CloseHandle SnapshotHandle (do_while w req 0 pe32 rest s2))))"

text \<open>
  The invocation of the callback that the loop body makes for an entry: the one it adds
  to an empty record of invocations.
\<close>

definition delivered :: "os \<Rightarrow> PROCESSENTRY32W \<Rightarrow> callback_call" where
  "delivered w pe32 = last (calls (loop_body w pe32 initial_state))"

section \<open>Example systems\<close>

text \<open>A process that \<open>OpenProcess\<close> refuses to open.\<close>

definition closed_target :: target_process where
  "closed_target =
     \<lparr>OpenProcess_ok = False,
      GetModuleBaseNameW_out = (\<lambda>buf n. (0, buf)),
      NtQueryInformationProcess_out = (1, \<lparr>PebBaseAddress = 0, UniqueProcessId = 0\<rparr>),
      peb_at = (\<lambda>a. None),
      params_at = (\<lambda>a. None),
      memory = (\<lambda>a. None)\<rparr>"

text \<open>
  An accessible process whose command line is the four bytes of \<open>L"hi"\<close> at address
  \<open>0x3000\<close>, followed by one more readable byte.
\<close>

definition notepad_target :: target_process where
  "notepad_target =
     \<lparr>OpenProcess_ok = True,
      GetModuleBaseNameW_out = (\<lambda>buf n. (11, L ''notepad.exe'')),
      NtQueryInformationProcess_out =
        (0, \<lparr>PebBaseAddress = 0x1000, UniqueProcessId = 7\<rparr>),
      peb_at = (\<lambda>a. if a = 0x1000
                 then Some \<lparr>BeingDebugged = 0, LoaderData = 0, ProcessParameters = 0x2000\<rparr>
                 else None),
      params_at = (\<lambda>a. if a = 0x2000
                 then Some \<lparr>ImagePathName = \<lparr>Length = 0, MaximumLength = 0, Buffer = 0\<rparr>,
                            CommandLine = \<lparr>Length = 4, MaximumLength = 6, Buffer = 0x3000\<rparr>\<rparr>
                 else None),
      memory = (\<lambda>a. if a = 0x3000 then Some 0x68 else if a = 0x3001 then Some 0
                 else if a = 0x3002 then Some 0x69 else if a = 0x3003 then Some 0
                 else if a = 0x3004 then Some 0x21 else None)\<rparr>"

definition snapshot3 :: "PROCESSENTRY32W list" where
  "snapshot3 =
     [\<lparr>th32ProcessID = 0, szExeFile = L ''[System Process]''\<rparr>,
      \<lparr>th32ProcessID = 4, szExeFile = L ''System''\<rparr>,
      \<lparr>th32ProcessID = 7, szExeFile = L ''notepad.exe''\<rparr>]"

text \<open>A system that grants the privilege and delivers three entries; only pid 7 opens.\<close>

definition friendly_os :: os where
  "friendly_os =
     \<lparr>OpenProcessToken_ok = True,
      LookupPrivilegeValue_ok = True,
      AdjustTokenPrivileges_ok = True,
      GetLastError_adjust = 0,
      CreateToolhelp32Snapshot_out = Some snapshot3,
      GetLastError_first = 0,
      GetModuleHandleW_ntdll_ok = True,
      GetProcAddress_ok = True,
      target = (\<lambda>pid. if pid = 7 then notepad_target else closed_target)\<rparr>"

text \<open>The same system when the adjustment reports that not all privileges were assigned.\<close>

definition unprivileged_os :: os where
  "unprivileged_os = friendly_os\<lparr>GetLastError_adjust := ERROR_NOT_ALL_ASSIGNED\<rparr>"

text \<open>A host that never requests cancellation.\<close>

definition never :: "nat \<Rightarrow> bool" where
  "never i = False"

text \<open>The same system when the token of the current process cannot be opened.\<close>

definition denied_os :: os where
  "denied_os = friendly_os\<lparr>OpenProcessToken_ok := False\<rparr>"

text \<open>Systems whose snapshot cannot be created, or delivers no first entry.\<close>

definition no_snapshot_os :: os where
  "no_snapshot_os = friendly_os\<lparr>CreateToolhelp32Snapshot_out := None\<rparr>"

definition empty_snapshot_os :: os where
  "empty_snapshot_os =
     friendly_os\<lparr>CreateToolhelp32Snapshot_out := Some [], GetLastError_first := 18\<rparr>"

text \<open>A snapshot of a single entry.\<close>

definition lonely_os :: os where
  "lonely_os = friendly_os\<lparr>CreateToolhelp32Snapshot_out :=
     Some [\<lparr>th32ProcessID = 4, szExeFile = L ''System''\<rparr>]\<rparr>"

text \<open>A snapshot entry whose executable name is empty, for a process that does not open.\<close>

definition nameless_os :: os where
  "nameless_os = friendly_os\<lparr>CreateToolhelp32Snapshot_out :=
     Some [\<lparr>th32ProcessID = 9, szExeFile = []\<rparr>]\<rparr>"

text \<open>
  Pid 7 now belongs to another program than at snapshot time: its module base name is
  \<open>calc.exe\<close>, and the query of its basic information is refused.
\<close>

definition renamed_target :: target_process where
  "renamed_target = notepad_target
     \<lparr>GetModuleBaseNameW_out := (\<lambda>buf n. (8, L ''calc.exe'')),
      NtQueryInformationProcess_out :=
        (0xC0000022, \<lparr>PebBaseAddress = 0, UniqueProcessId = 0\<rparr>)\<rparr>"

definition reused_os :: os where
  "reused_os =
     friendly_os\<lparr>target := (\<lambda>pid. if pid = 7 then renamed_target else closed_target)\<rparr>"



text \<open>A command line whose descriptor reports six bytes, the last of them unreadable.\<close>

definition unreadable_target :: target_process where
  "unreadable_target = notepad_target
     \<lparr>params_at := (\<lambda>a. if a = 0x2000
         then Some \<lparr>ImagePathName = \<lparr>Length = 0, MaximumLength = 0, Buffer = 0\<rparr>,
                    CommandLine = \<lparr>Length = 6, MaximumLength = 8, Buffer = 0x3000\<rparr>\<rparr>
         else None)\<rparr>"

definition unreadable_os :: os where
  "unreadable_os =
     friendly_os\<lparr>target := (\<lambda>pid. if pid = 7 then unreadable_target else closed_target)\<rparr>"

text \<open>A command line whose descriptor reports three bytes, all of them readable.\<close>

definition short_odd_target :: target_process where
  "short_odd_target = notepad_target
     \<lparr>params_at := (\<lambda>a. if a = 0x2000
         then Some \<lparr>ImagePathName = \<lparr>Length = 0, MaximumLength = 0, Buffer = 0\<rparr>,
                    CommandLine = \<lparr>Length = 3, MaximumLength = 4, Buffer = 0x3000\<rparr>\<rparr>
         else None)\<rparr>"

definition short_odd_os :: os where
  "short_odd_os =
     friendly_os\<lparr>target := (\<lambda>pid. if pid = 7 then short_odd_target else closed_target)\<rparr>"

text \<open>Hosts that request cancellation while the second, or the third, entry is processed.\<close>

definition during_second :: "nat \<Rightarrow> bool" where
  "during_second i = (i = 1)"

definition during_third :: "nat \<Rightarrow> bool" where
  "during_third i = (i = 2)"

section \<open>Privilege elevation\<close>

lemma EnableDebugPrivilege_frame:
  "cancelRequested (snd (EnableDebugPrivilege w s)) = cancelRequested s"
  "heap (snd (EnableDebugPrivilege w s)) = heap s"
  "wcout (snd (EnableDebugPrivilege w s)) = wcout s"
  "calls (snd (EnableDebugPrivilege w s)) = calls s"
  by (simp_all add: EnableDebugPrivilege_def open_handle_def CloseHandle_def Let_def)

lemma EnableDebugPrivilege_True_iff:
  "fst (EnableDebugPrivilege w s) \<longleftrightarrow>
     OpenProcessToken_ok w \<and> LookupPrivilegeValue_ok w \<and> AdjustTokenPrivileges_ok w
      \<and> GetLastError_adjust w \<noteq> ERROR_NOT_ALL_ASSIGNED"
  by (simp add: EnableDebugPrivilege_def Let_def)

section \<open>The reader of the command line\<close>

lemma those_length:
  "those xs = Some ys \<Longrightarrow> length ys = length xs"
  by (induction xs arbitrary: ys) (auto split: option.splits)

lemma ReadProcessMemory_length:
  "ReadProcessMemory mem a n = Some bs \<Longrightarrow> length bs = n"
  by (auto simp: ReadProcessMemory_def dest: those_length)

lemma terminate_even:
  fixes xs :: "'a option list"
  assumes "length xs = 2 * k"
  shows "(xs @ [None, None])[2 * k := Some z, 2 * k + 1 := Some z] = xs @ [Some z, Some z]"
  using assms by (simp add: list_update_append)

lemma terminate_odd:
  fixes xs :: "'a option list"
  assumes "length xs = 2 * k"
  shows "(xs @ [b, None])[2 * k := Some z, 2 * k + 1 := Some z] = xs @ [Some z, Some z]"
  using assms by (simp add: list_update_append)

lemma terminated_buffer:
  fixes bytes :: "BYTE list"
  assumes "length bytes = len"
  shows "(map Some bytes @ drop len (replicate (2 * (len div 2 + 1)) None))
            [2 * (len div 2) := Some 0, 2 * (len div 2) + 1 := Some 0]
         = map Some (take (2 * (len div 2)) bytes) @ [Some 0, Some 0]"
proof (cases "even len")
  case True
  then obtain k where k: "len = 2 * k" by (auto elim: evenE)
  have e: "2 * (len div 2 + 1) - len = Suc (Suc 0)"
    unfolding k by simp
  have d: "drop len (replicate (2 * (len div 2 + 1)) None) = [None, None :: BYTE option]"
    unfolding drop_replicate e by simp
  show ?thesis
    unfolding d using assms terminate_even [of "map Some bytes" k 0] by (simp add: k)
next
  case False
  then obtain k where k: "len = 2 * k + 1" by (auto elim: oddE)
  have e: "2 * (len div 2 + 1) - len = Suc 0"
    unfolding k by simp
  have d: "drop len (replicate (2 * (len div 2 + 1)) None) = [None :: BYTE option]"
    unfolding drop_replicate e by simp
  have b: "bytes = take (2 * k) bytes @ [bytes ! (2 * k)]"
    using assms k by (simp add: take_Suc_conv_app_nth [symmetric])
  have "map Some bytes @ [None] = map Some (take (2 * k) bytes) @ [Some (bytes ! (2 * k)), None]"
    by (subst b) simp
  then show ?thesis
    unfolding d using assms terminate_odd [of "map Some (take (2 * k) bytes)" k "Some (bytes ! (2 * k))" 0]
    by (simp add: k)
qed

lemma GetProcessCommandLine_frame:
  "cancelRequested (snd (snd (snd (GetProcessCommandLine w pid p nm n s)))) = cancelRequested s"
  "wcout (snd (snd (snd (GetProcessCommandLine w pid p nm n s)))) = wcout s"
  "calls (snd (snd (snd (GetProcessCommandLine w pid p nm n s)))) = calls s"
  by (simp_all add: GetProcessCommandLine_def open_handle_def CloseHandle_def Let_def
        new_wchar_t_def delete_array_def write_bytes_def store_wchar_def
        split: prod.splits option.splits)

lemma GetProcessCommandLine_handles:
  "handles (snd (snd (snd (GetProcessCommandLine w pid p nm n s)))) = handles s"
  by (simp add: GetProcessCommandLine_def open_handle_def CloseHandle_def Let_def
        new_wchar_t_def delete_array_def write_bytes_def store_wchar_def
        split: prod.splits option.splits)

lemma close_open_handle: "CloseHandle h (open_handle h s) = s"
  by (simp add: CloseHandle_def open_handle_def)

lemma GetProcessCommandLine_success:
  assumes "OpenProcess_ok (target w pid)"
    and "GetModuleBaseNameW_out (target w pid) nm n = (m, nm1)" and "m \<noteq> 0"
    and "GetModuleHandleW_ntdll_ok w" and "GetProcAddress_ok w"
    and "NtQueryInformationProcess_out (target w pid) = (STATUS_SUCCESS, pbi)"
    and "peb_at (target w pid) (PebBaseAddress pbi) = Some peb"
    and "params_at (target w pid) (ProcessParameters peb) = Some upp"
    and "ReadProcessMemory (memory (target w pid)) (Buffer (CommandLine upp))
           (unat (Length (CommandLine upp))) = Some bytes"
  shows "GetProcessCommandLine w pid p nm n s =
     (True, Some (length (heap s)), nm1,
      s\<lparr>heap := heap s @
         [Some (map Some (take (2 * (unat (Length (CommandLine upp)) div 2)) bytes)
                @ [Some 0, Some 0])]\<rparr>)"
proof -
  have len: "length bytes = unat (Length (CommandLine upp))"
    using assms(9) by (rule ReadProcessMemory_length)
  show ?thesis
    using assms terminated_buffer [OF len]
    by (simp add: len GetProcessCommandLine_def Let_def new_wchar_t_def write_bytes_def
        store_wchar_def open_handle_def CloseHandle_def nth_append)
qed

lemma GetProcessCommandLine_True_D:
  assumes "fst (GetProcessCommandLine w pid p nm n s)"
  shows "\<exists>m nm1 pbi peb upp bytes.
      OpenProcess_ok (target w pid)
    \<and> GetModuleBaseNameW_out (target w pid) nm n = (m, nm1) \<and> m \<noteq> 0
    \<and> GetModuleHandleW_ntdll_ok w \<and> GetProcAddress_ok w
    \<and> NtQueryInformationProcess_out (target w pid) = (STATUS_SUCCESS, pbi)
    \<and> peb_at (target w pid) (PebBaseAddress pbi) = Some peb
    \<and> params_at (target w pid) (ProcessParameters peb) = Some upp
    \<and> ReadProcessMemory (memory (target w pid)) (Buffer (CommandLine upp))
           (unat (Length (CommandLine upp))) = Some bytes"
  using assms
  by (auto simp: GetProcessCommandLine_def Let_def new_wchar_t_def
      split: if_splits prod.splits option.splits)

lemma live_buffers_released:
  "live_buffers (s\<lparr>heap := (heap s @ [c])[length (heap s) := None]\<rparr>) = live_buffers s"
  by (simp add: live_buffers_def List.map_filter_def)

lemma GetProcessCommandLine_False:
  assumes "\<not> fst (GetProcessCommandLine w pid p nm n s)"
  shows "handles (snd (snd (snd (GetProcessCommandLine w pid p nm n s)))) = handles s"
    and "live_buffers (snd (snd (snd (GetProcessCommandLine w pid p nm n s)))) = live_buffers s"
    and "heap (snd (snd (snd (GetProcessCommandLine w pid p nm n s)))) = heap s
       \<or> heap (snd (snd (snd (GetProcessCommandLine w pid p nm n s)))) = heap s @ [None]"
  using assms
  by (auto simp: GetProcessCommandLine_def Let_def new_wchar_t_def delete_array_def
      open_handle_def CloseHandle_def live_buffers_def List.map_filter_def
      split: if_splits prod.splits option.splits)

lemma GetProcessCommandLine_name:
  "fst (snd (snd (GetProcessCommandLine w pid p nm n s))) =
     (if OpenProcess_ok (target w pid) then snd (GetModuleBaseNameW_out (target w pid) nm n)
      else nm)"
  by (simp add: GetProcessCommandLine_def Let_def new_wchar_t_def
      split: prod.splits option.splits)

lemma GetProcessCommandLine_fst_indep:
  "fst (GetProcessCommandLine w pid p nm n s) = fst (GetProcessCommandLine w pid p' nm n s')"
  by (simp add: GetProcessCommandLine_def Let_def new_wchar_t_def
      split: prod.splits option.splits)

lemma loop_body_failure:
  assumes "\<not> fst (GetProcessCommandLine w (th32ProcessID e) None
      (wcsncpy_s_TRUNCATE (L ''<unknown>'') MAX_PATH (szExeFile e)) MAX_PATH s0)"
  shows "calls (loop_body w e s) = calls s @
     [\<lparr>cb_pid = th32ProcessID e,
       cb_process_name =
         (if OpenProcess_ok (target w (th32ProcessID e))
          then snd (GetModuleBaseNameW_out (target w (th32ProcessID e))
                 (wcsncpy_s_TRUNCATE (L ''<unknown>'') MAX_PATH (szExeFile e)) MAX_PATH)
          else wcsncpy_s_TRUNCATE (L ''<unknown>'') MAX_PATH (szExeFile e)),
       cb_cmdline = NULL\<rparr>]"
    and "heap (loop_body w e s) = heap s \<or> heap (loop_body w e s) = heap s @ [None]"
proof -
  let ?r = "GetProcessCommandLine w (th32ProcessID e) None
      (wcsncpy_s_TRUNCATE (L ''<unknown>'') MAX_PATH (szExeFile e)) MAX_PATH s"
  have f: "\<not> fst ?r"
    using assms GetProcessCommandLine_fst_indep [of w "th32ProcessID e" None _ MAX_PATH s None s0]
    by simp
  have lb: "loop_body w e s = callback (th32ProcessID e) (fst (snd (snd ?r))) None (snd (snd (snd ?r)))"
    using f by (simp add: loop_body_def Let_def case_prod_beta)
  show "calls (loop_body w e s) = calls s @
     [\<lparr>cb_pid = th32ProcessID e,
       cb_process_name =
         (if OpenProcess_ok (target w (th32ProcessID e))
          then snd (GetModuleBaseNameW_out (target w (th32ProcessID e))
                 (wcsncpy_s_TRUNCATE (L ''<unknown>'') MAX_PATH (szExeFile e)) MAX_PATH)
          else wcsncpy_s_TRUNCATE (L ''<unknown>'') MAX_PATH (szExeFile e)),
       cb_cmdline = NULL\<rparr>]"
    unfolding lb
    by (simp add: callback_def deref_def GetProcessCommandLine_name GetProcessCommandLine_frame)
  show "heap (loop_body w e s) = heap s \<or> heap (loop_body w e s) = heap s @ [None]"
    unfolding lb using GetProcessCommandLine_False(3) [OF f]
    by (simp add: callback_def)
qed

lemma loop_body_success:
  assumes "fst (GetProcessCommandLine w (th32ProcessID e) None
      (wcsncpy_s_TRUNCATE (L ''<unknown>'') MAX_PATH (szExeFile e)) MAX_PATH s0)"
  shows "\<exists>m nm1 pbi peb upp bytes.
      GetModuleBaseNameW_out (target w (th32ProcessID e))
         (wcsncpy_s_TRUNCATE (L ''<unknown>'') MAX_PATH (szExeFile e)) MAX_PATH = (m, nm1)
    \<and> m \<noteq> 0
    \<and> NtQueryInformationProcess_out (target w (th32ProcessID e)) = (STATUS_SUCCESS, pbi)
    \<and> peb_at (target w (th32ProcessID e)) (PebBaseAddress pbi) = Some peb
    \<and> params_at (target w (th32ProcessID e)) (ProcessParameters peb) = Some upp
    \<and> ReadProcessMemory (memory (target w (th32ProcessID e))) (Buffer (CommandLine upp))
           (unat (Length (CommandLine upp))) = Some bytes
    \<and> (\<forall>s. calls (loop_body w e s) = calls s @
         [\<lparr>cb_pid = th32ProcessID e, cb_process_name = nm1,
           cb_cmdline = Text (map Some (take (2 * (unat (Length (CommandLine upp)) div 2)) bytes)
                @ [Some 0, Some 0])\<rparr>]
        \<and> heap (loop_body w e s) = heap s @ [None])"
proof -
  from GetProcessCommandLine_True_D [OF assms]
  obtain m nm1 pbi peb upp bytes where c:
    "OpenProcess_ok (target w (th32ProcessID e))"
    "GetModuleBaseNameW_out (target w (th32ProcessID e))
         (wcsncpy_s_TRUNCATE (L ''<unknown>'') MAX_PATH (szExeFile e)) MAX_PATH = (m, nm1)"
    "m \<noteq> 0" "GetModuleHandleW_ntdll_ok w" "GetProcAddress_ok w"
    "NtQueryInformationProcess_out (target w (th32ProcessID e)) = (STATUS_SUCCESS, pbi)"
    "peb_at (target w (th32ProcessID e)) (PebBaseAddress pbi) = Some peb"
    "params_at (target w (th32ProcessID e)) (ProcessParameters peb) = Some upp"
    "ReadProcessMemory (memory (target w (th32ProcessID e))) (Buffer (CommandLine upp))
           (unat (Length (CommandLine upp))) = Some bytes"
    by blast
  have "calls (loop_body w e s) = calls s @
         [\<lparr>cb_pid = th32ProcessID e, cb_process_name = nm1,
           cb_cmdline = Text (map Some (take (2 * (unat (Length (CommandLine upp)) div 2)) bytes)
                @ [Some 0, Some 0])\<rparr>]
        \<and> heap (loop_body w e s) = heap s @ [None]" for s
    by (simp add: loop_body_def Let_def GetProcessCommandLine_success [OF c]
        callback_def deref_def delete_array_def)
  with c show ?thesis by blast
qed

lemma loop_body_calls: "calls (loop_body w e s) = calls s @ [delivered w e]"
proof (cases "fst (GetProcessCommandLine w (th32ProcessID e) None
      (wcsncpy_s_TRUNCATE (L ''<unknown>'') MAX_PATH (szExeFile e)) MAX_PATH initial_state)")
  case True
  from loop_body_success [OF True] obtain c where "\<forall>s. calls (loop_body w e s) = calls s @ [c]"
    by blast
  then show ?thesis
    by (simp add: delivered_def)
next
  case False
  from loop_body_failure(1) [OF False] show ?thesis
    by (simp add: delivered_def)
qed

lemma loop_body_frame:
  "cancelRequested (loop_body w e s) = cancelRequested s"
  "wcout (loop_body w e s) = wcout s"
  "handles (loop_body w e s) = handles s"
  by (simp_all add: loop_body_def Let_def case_prod_beta callback_def delete_array_def
      GetProcessCommandLine_frame GetProcessCommandLine_handles split: option.splits)

section \<open>The loop over the snapshot\<close>

lemma host_activity_simps:
  "calls (host_activity req i s) = calls s"
  "wcout (host_activity req i s) = wcout s"
  "handles (host_activity req i s) = handles s"
  "heap (host_activity req i s) = heap s"
  "cancelRequested (host_activity req i s) \<longleftrightarrow> cancelRequested s \<or> req i"
  by (simp_all add: host_activity_def RequestCancellation_def)

lemma step_simps:
  "calls (host_activity req i (loop_body w e s)) = calls s @ [delivered w e]"
  "cancelRequested (host_activity req i (loop_body w e s)) \<longleftrightarrow> cancelRequested s \<or> req i"
  by (simp_all add: host_activity_simps loop_body_calls loop_body_frame)

lemma do_while_flag_set:
  assumes "cancelRequested s"
  shows "do_while w req i e rest s = host_activity req i (loop_body w e s)"
  using assms by (cases rest) (simp_all add: Let_def step_simps)

lemma do_while_cancelled_at:
  assumes "\<not> cancelRequested s" and "req (i + m)" and "\<forall>j<m. \<not> req (i + j)"
    and "m \<le> length rest"
  shows "calls (do_while w req i e rest s) = calls s @ map (delivered w) (take (Suc m) (e # rest))
       \<and> cancelRequested (do_while w req i e rest s)"
  using assms
proof (induction rest arbitrary: i e s m)
  case Nil
  then show ?case by (simp add: step_simps)
next
  case (Cons nxt rest)
  show ?case
  proof (cases m)
    case 0
    with Cons.prems show ?thesis by (simp add: Let_def step_simps)
  next
    case (Suc m')
    let ?s1 = "host_activity req i (loop_body w e s)"
    have ni: "\<not> req i" using Cons.prems(3) Suc by force
    have f: "\<not> cancelRequested ?s1" using Cons.prems(1) ni by (simp add: step_simps)
    have r: "req (Suc i + m')" using Cons.prems(2) Suc by simp
    have q: "\<forall>j<m'. \<not> req (Suc i + j)"
    proof (intro allI impI)
      fix j assume "j < m'"
      then have "Suc j < m" using Suc by simp
      with Cons.prems(3) have "\<not> req (i + Suc j)" by blast
      then show "\<not> req (Suc i + j)" by simp
    qed
    have l: "m' \<le> length rest" using Cons.prems(4) Suc by simp
    from Cons.IH [OF f r q l, of nxt] f show ?thesis
      by (simp add: Let_def step_simps Suc)
  qed
qed

lemma do_while_uncancelled:
  assumes "\<not> cancelRequested s" and "\<forall>j<length rest. \<not> req (i + j)"
  shows "calls (do_while w req i e rest s) = calls s @ map (delivered w) (e # rest)"
  using assms
proof (induction rest arbitrary: i e s)
  case Nil
  then show ?case by (simp add: step_simps)
next
  case (Cons nxt rest)
  let ?s1 = "host_activity req i (loop_body w e s)"
  have ni: "\<not> req i" using Cons.prems(2) by force
  have f: "\<not> cancelRequested ?s1" using Cons.prems(1) ni by (simp add: step_simps)
  have q: "\<forall>j<length rest. \<not> req (Suc i + j)"
  proof (intro allI impI)
    fix j assume "j < length rest"
    then have "Suc j < length (nxt # rest)" by simp
    with Cons.prems(2) have "\<not> req (i + Suc j)" by blast
    then show "\<not> req (Suc i + j)" by simp
  qed
  from Cons.IH [OF f q, of nxt] f show ?case
    by (simp add: Let_def step_simps)
qed

lemma do_while_prefix:
  "\<exists>k. 0 < k \<and> k \<le> Suc (length rest)
     \<and> calls (do_while w req i e rest s) = calls s @ map (delivered w) (take k (e # rest))"
proof (induction rest arbitrary: i e s)
  case Nil
  have "calls (do_while w req i e [] s) = calls s @ map (delivered w) (take 1 [e])"
    by (simp add: step_simps)
  then show ?case by (intro exI [of _ 1]) simp
next
  case (Cons nxt rest)
  let ?s1 = "host_activity req i (loop_body w e s)"
  show ?case
  proof (cases "cancelRequested ?s1")
    case True
    then have "calls (do_while w req i e (nxt # rest) s)
        = calls s @ map (delivered w) (take 1 (e # nxt # rest))"
      by (simp add: Let_def step_simps)
    then show ?thesis by (intro exI [of _ 1]) simp
  next
    case False
    from Cons.IH [of "Suc i" nxt ?s1] obtain k where k: "0 < k" "k \<le> Suc (length rest)"
      "calls (do_while w req (Suc i) nxt rest ?s1) = calls ?s1 @ map (delivered w) (take k (nxt # rest))"
      by blast
    have "calls (do_while w req i e (nxt # rest) s)
        = calls s @ map (delivered w) (take (Suc k) (e # nxt # rest))"
      using False k(3) by (simp add: Let_def step_simps)
    with k(1,2) show ?thesis by (intro exI [of _ "Suc k"]) simp
  qed
qed

lemma do_while_frame:
  "wcout (do_while w req i e rest s) = wcout s"
  "handles (do_while w req i e rest s) = handles s"
  by (induction rest arbitrary: i e s)
     (simp_all add: Let_def host_activity_simps loop_body_frame)

lemma do_while_monotone:
  "cancelRequested s \<Longrightarrow> cancelRequested (do_while w req i e rest s)"
  by (simp add: do_while_flag_set step_simps)

lemma do_while_never:
  "cancelRequested (do_while w never i e rest s) = cancelRequested s"
  by (induction rest arbitrary: i e s) (simp_all add: Let_def step_simps never_def)

section \<open>The enumeration pass\<close>

lemma GetProcessDetails_denied:
  assumes "\<not> fst (EnableDebugPrivilege w s)"
  shows "GetProcessDetails w req s =
     print (Line ''Failed to enable debug privilege.'') (snd (EnableDebugPrivilege w s))"
  using assms by (simp add: GetProcessDetails_def case_prod_beta)

lemma GetProcessDetails_no_snapshot:
  assumes "fst (EnableDebugPrivilege w s)" and "CreateToolhelp32Snapshot_out w = None"
  shows "GetProcessDetails w req s =
     print (Line ''Failed to create snapshot.'') (snd (EnableDebugPrivilege w s))"
  using assms by (simp add: GetProcessDetails_def case_prod_beta)

lemma GetProcessDetails_no_first:
  assumes "fst (EnableDebugPrivilege w s)" and "CreateToolhelp32Snapshot_out w = Some []"
  shows "GetProcessDetails w req s =
     print (Line ''Failed to get first process from snapshot.'')
       (CloseHandle SnapshotHandle (print (ErrorCode (GetLastError_first w))
          (open_handle SnapshotHandle (snd (EnableDebugPrivilege w s)))))"
  using assms by (simp add: GetProcessDetails_def case_prod_beta)

lemma GetProcessDetails_entered:
  assumes "fst (EnableDebugPrivilege w s)" and "CreateToolhelp32Snapshot_out w = Some (e # rest)"
  shows "GetProcessDetails w req s =
     CloseHandle SnapshotHandle
       (do_while w req 0 e rest (open_handle SnapshotHandle (snd (EnableDebugPrivilege w s))))"
  using assms by (simp add: GetProcessDetails_def case_prod_beta)

lemma effect_simps:
  "calls (print l s) = calls s" "cancelRequested (print l s) = cancelRequested s"
  "wcout (print l s) = wcout s @ [l]" "handles (print l s) = handles s" "heap (print l s) = heap s"
  "calls (CloseHandle h s) = calls s" "cancelRequested (CloseHandle h s) = cancelRequested s"
  "wcout (CloseHandle h s) = wcout s" "heap (CloseHandle h s) = heap s"
  "handles (CloseHandle h s) = remove1 h (handles s)"
  "calls (open_handle h s) = calls s" "cancelRequested (open_handle h s) = cancelRequested s"
  "wcout (open_handle h s) = wcout s" "heap (open_handle h s) = heap s"
  "handles (open_handle h s) = h # handles s"
  by (simp_all add: print_def CloseHandle_def open_handle_def)

lemma GetProcessDetails_calls_entered:
  assumes "fst (EnableDebugPrivilege w s)" and "CreateToolhelp32Snapshot_out w = Some (e # rest)"
  shows "calls (GetProcessDetails w req s) =
     calls (do_while w req 0 e rest (open_handle SnapshotHandle (snd (EnableDebugPrivilege w s))))"
    and "cancelRequested (GetProcessDetails w req s) =
     cancelRequested (do_while w req 0 e rest (open_handle SnapshotHandle (snd (EnableDebugPrivilege w s))))"
  by (simp_all add: GetProcessDetails_entered [OF assms] effect_simps)

lemma start_simps:
  "calls (open_handle SnapshotHandle (snd (EnableDebugPrivilege w s))) = calls s"
  "cancelRequested (open_handle SnapshotHandle (snd (EnableDebugPrivilege w s))) = cancelRequested s"
  by (simp_all add: effect_simps EnableDebugPrivilege_frame)

lemma GetProcessDetails_prefix:
  "\<exists>k\<le>length (case CreateToolhelp32Snapshot_out w of None \<Rightarrow> [] | Some es \<Rightarrow> es).
     calls (GetProcessDetails w req s) = calls s @ map (delivered w)
       (take k (case CreateToolhelp32Snapshot_out w of None \<Rightarrow> [] | Some es \<Rightarrow> es))"
proof (cases "fst (EnableDebugPrivilege w s)")
  case False
  then show ?thesis
    by (intro exI [of _ 0]) (simp add: GetProcessDetails_denied effect_simps EnableDebugPrivilege_frame)
next
  case True
  show ?thesis
  proof (cases "CreateToolhelp32Snapshot_out w")
    case None
    with True show ?thesis
      by (intro exI [of _ 0]) (simp add: GetProcessDetails_no_snapshot effect_simps EnableDebugPrivilege_frame)
  next
    case (Some es)
    show ?thesis
    proof (cases es)
      case Nil
      with True Some show ?thesis
        by (intro exI [of _ 0]) (simp add: GetProcessDetails_no_first effect_simps EnableDebugPrivilege_frame)
    next
      case (Cons e rest)
      from do_while_prefix [of rest w req 0 e "open_handle SnapshotHandle (snd (EnableDebugPrivilege w s))"]
      obtain k where "0 < k" "k \<le> Suc (length rest)"
        "calls (do_while w req 0 e rest (open_handle SnapshotHandle (snd (EnableDebugPrivilege w s))))
          = calls s @ map (delivered w) (take k (e # rest))"
        by (auto simp: start_simps)
      with True Some Cons show ?thesis
        by (intro exI [of _ k]) (simp add: GetProcessDetails_calls_entered)
    qed
  qed
qed

section \<open>What the callback receives for an entry\<close>

lemma delivered_failure:
  assumes "\<not> fst (GetProcessCommandLine w (th32ProcessID e) None
      (wcsncpy_s_TRUNCATE (L ''<unknown>'') MAX_PATH (szExeFile e)) MAX_PATH s0)"
  shows "delivered w e =
     \<lparr>cb_pid = th32ProcessID e,
       cb_process_name =
         (if OpenProcess_ok (target w (th32ProcessID e))
          then snd (GetModuleBaseNameW_out (target w (th32ProcessID e))
                 (wcsncpy_s_TRUNCATE (L ''<unknown>'') MAX_PATH (szExeFile e)) MAX_PATH)
          else wcsncpy_s_TRUNCATE (L ''<unknown>'') MAX_PATH (szExeFile e)),
       cb_cmdline = NULL\<rparr>"
  by (simp add: delivered_def loop_body_failure(1) [OF assms])

lemma delivered_success:
  assumes "fst (GetProcessCommandLine w (th32ProcessID e) None
      (wcsncpy_s_TRUNCATE (L ''<unknown>'') MAX_PATH (szExeFile e)) MAX_PATH s0)"
  shows "\<exists>m nm1 pbi peb upp bytes.
      OpenProcess_ok (target w (th32ProcessID e))
    \<and> GetModuleBaseNameW_out (target w (th32ProcessID e))
         (wcsncpy_s_TRUNCATE (L ''<unknown>'') MAX_PATH (szExeFile e)) MAX_PATH = (m, nm1)
    \<and> m \<noteq> 0
    \<and> NtQueryInformationProcess_out (target w (th32ProcessID e)) = (STATUS_SUCCESS, pbi)
    \<and> peb_at (target w (th32ProcessID e)) (PebBaseAddress pbi) = Some peb
    \<and> params_at (target w (th32ProcessID e)) (ProcessParameters peb) = Some upp
    \<and> ReadProcessMemory (memory (target w (th32ProcessID e))) (Buffer (CommandLine upp))
           (unat (Length (CommandLine upp))) = Some bytes
    \<and> delivered w e =
         \<lparr>cb_pid = th32ProcessID e, cb_process_name = nm1,
           cb_cmdline = Text (map Some (take (2 * (unat (Length (CommandLine upp)) div 2)) bytes)
                @ [Some 0, Some 0])\<rparr>"
proof -
  from loop_body_success [OF assms] obtain m nm1 pbi peb upp bytes where c:
    "GetModuleBaseNameW_out (target w (th32ProcessID e))
         (wcsncpy_s_TRUNCATE (L ''<unknown>'') MAX_PATH (szExeFile e)) MAX_PATH = (m, nm1)"
    "m \<noteq> 0"
    "NtQueryInformationProcess_out (target w (th32ProcessID e)) = (STATUS_SUCCESS, pbi)"
    "peb_at (target w (th32ProcessID e)) (PebBaseAddress pbi) = Some peb"
    "params_at (target w (th32ProcessID e)) (ProcessParameters peb) = Some upp"
    "ReadProcessMemory (memory (target w (th32ProcessID e))) (Buffer (CommandLine upp))
           (unat (Length (CommandLine upp))) = Some bytes"
    "\<forall>s. calls (loop_body w e s) = calls s @
         [\<lparr>cb_pid = th32ProcessID e, cb_process_name = nm1,
           cb_cmdline = Text (map Some (take (2 * (unat (Length (CommandLine upp)) div 2)) bytes)
                @ [Some 0, Some 0])\<rparr>]
        \<and> heap (loop_body w e s) = heap s @ [None]"
    by blast
  have o: "OpenProcess_ok (target w (th32ProcessID e))"
    using GetProcessCommandLine_True_D [OF assms] by blast
  have "delivered w e =
         \<lparr>cb_pid = th32ProcessID e, cb_process_name = nm1,
           cb_cmdline = Text (map Some (take (2 * (unat (Length (CommandLine upp)) div 2)) bytes)
                @ [Some 0, Some 0])\<rparr>"
    using c(7) by (simp add: delivered_def)
  with c o show ?thesis by blast
qed

lemma delivered_pid: "cb_pid (delivered w e) = th32ProcessID e"
proof (cases "fst (GetProcessCommandLine w (th32ProcessID e) None
      (wcsncpy_s_TRUNCATE (L ''<unknown>'') MAX_PATH (szExeFile e)) MAX_PATH initial_state)")
  case True
  from delivered_success [OF True] show ?thesis by auto
next
  case False
  from delivered_failure [OF False] show ?thesis by simp
qed

lemma delivered_name:
  "cb_process_name (delivered w e) =
     (if OpenProcess_ok (target w (th32ProcessID e))
      then snd (GetModuleBaseNameW_out (target w (th32ProcessID e))
             (wcsncpy_s_TRUNCATE (L ''<unknown>'') MAX_PATH (szExeFile e)) MAX_PATH)
      else wcsncpy_s_TRUNCATE (L ''<unknown>'') MAX_PATH (szExeFile e))"
proof (cases "fst (GetProcessCommandLine w (th32ProcessID e) None
      (wcsncpy_s_TRUNCATE (L ''<unknown>'') MAX_PATH (szExeFile e)) MAX_PATH initial_state)")
  case True
  from delivered_success [OF True] show ?thesis by auto
next
  case False
  from delivered_failure [OF False] show ?thesis by simp
qed

lemma delivered_NULL_iff:
  "cb_cmdline (delivered w e) = NULL \<longleftrightarrow>
     \<not> fst (GetProcessCommandLine w (th32ProcessID e) None
      (wcsncpy_s_TRUNCATE (L ''<unknown>'') MAX_PATH (szExeFile e)) MAX_PATH initial_state)"
proof (cases "fst (GetProcessCommandLine w (th32ProcessID e) None
      (wcsncpy_s_TRUNCATE (L ''<unknown>'') MAX_PATH (szExeFile e)) MAX_PATH initial_state)")
  case True
  from delivered_success [OF True] show ?thesis using True by auto
next
  case False
  from delivered_failure [OF False] show ?thesis using False by simp
qed

lemma map_pid_delivered: "map cb_pid (map (delivered w) es) = map th32ProcessID es"
  by (simp add: delivered_pid)

lemma GetProcessDetails_calls_count:
  assumes "CreateToolhelp32Snapshot_out w = Some entries"
  shows "length (calls (GetProcessDetails w req s)) - length (calls s) \<le> length entries
    \<and> calls (GetProcessDetails w req s) = calls s @ map (delivered w)
         (take (length (calls (GetProcessDetails w req s)) - length (calls s)) entries)"
proof -
  from GetProcessDetails_prefix [of w req s] assms
  obtain k where k: "k \<le> length entries"
    "calls (GetProcessDetails w req s) = calls s @ map (delivered w) (take k entries)"
    by auto
  then have "length (calls (GetProcessDetails w req s)) - length (calls s) = k"
    by simp
  with k show ?thesis by simp
qed

section \<open>The array handed over by the reader\<close>

lemma GetProcessCommandLine_third_read_fails:
  assumes "OpenProcess_ok (target w pid)"
    and "GetModuleBaseNameW_out (target w pid) nm n = (m, nm1)" and "m \<noteq> 0"
    and "GetModuleHandleW_ntdll_ok w" and "GetProcAddress_ok w"
    and "NtQueryInformationProcess_out (target w pid) = (STATUS_SUCCESS, pbi)"
    and "peb_at (target w pid) (PebBaseAddress pbi) = Some peb"
    and "params_at (target w pid) (ProcessParameters peb) = Some upp"
    and "ReadProcessMemory (memory (target w pid)) (Buffer (CommandLine upp))
           (unat (Length (CommandLine upp))) = None"
  shows "GetProcessCommandLine w pid p nm n s =
     (False, Some (length (heap s)), nm1, s\<lparr>heap := heap s @ [None]\<rparr>)"
  using assms
  by (simp add: GetProcessCommandLine_def Let_def new_wchar_t_def delete_array_def
      open_handle_def CloseHandle_def)

lemma live_buffers_new:
  "live_buffers (s\<lparr>heap := heap s @ [Some b]\<rparr>) = live_buffers s @ [b]"
  by (simp add: live_buffers_def List.map_filter_def)

lemma deref_new:
  "deref (s\<lparr>heap := heap s @ [Some b]\<rparr>) (Some (length (heap s))) = Text b"
  by (simp add: deref_def)

lemma GetProcessCommandLine_True_result:
  assumes "fst (GetProcessCommandLine w pid p nm n s)"
  shows "\<exists>m nm1 pbi peb upp bytes.
      GetModuleBaseNameW_out (target w pid) nm n = (m, nm1)
    \<and> NtQueryInformationProcess_out (target w pid) = (STATUS_SUCCESS, pbi)
    \<and> peb_at (target w pid) (PebBaseAddress pbi) = Some peb
    \<and> params_at (target w pid) (ProcessParameters peb) = Some upp
    \<and> ReadProcessMemory (memory (target w pid)) (Buffer (CommandLine upp))
           (unat (Length (CommandLine upp))) = Some bytes
    \<and> length bytes = unat (Length (CommandLine upp))
    \<and> GetProcessCommandLine w pid p nm n s =
        (True, Some (length (heap s)), nm1,
         s\<lparr>heap := heap s @
           [Some (map Some (take (2 * (unat (Length (CommandLine upp)) div 2)) bytes)
                  @ [Some 0, Some 0])]\<rparr>)"
proof -
  from GetProcessCommandLine_True_D [OF assms]
  obtain m nm1 pbi peb upp bytes where c:
    "OpenProcess_ok (target w pid)"
    "GetModuleBaseNameW_out (target w pid) nm n = (m, nm1)"
    "m \<noteq> 0" "GetModuleHandleW_ntdll_ok w" "GetProcAddress_ok w"
    "NtQueryInformationProcess_out (target w pid) = (STATUS_SUCCESS, pbi)"
    "peb_at (target w pid) (PebBaseAddress pbi) = Some peb"
    "params_at (target w pid) (ProcessParameters peb) = Some upp"
    "ReadProcessMemory (memory (target w pid)) (Buffer (CommandLine upp))
           (unat (Length (CommandLine upp))) = Some bytes"
    by blast
  from GetProcessCommandLine_success [OF c, of p s] ReadProcessMemory_length [OF c(9)] c
  show ?thesis by blast
qed

section \<open>The token handle of the privilege elevation\<close>

text \<open>
  C10. Once \<open>OpenProcessToken\<close> has succeeded, \<open>EnableDebugPrivilege\<close> returns true
  exactly when the lookup, the adjustment and the check of the last error all pass; on
  every other path it returns false with the token handle still open (one more open
  handle than before the call), and only the path that returns true closes it.
\<close>

theorem EnableDebugPrivilege_token_handle:
  assumes "OpenProcessToken_ok w"
  shows "(fst (EnableDebugPrivilege w s) \<longleftrightarrow>
            LookupPrivilegeValue_ok w \<and> AdjustTokenPrivileges_ok w
             \<and> GetLastError_adjust w \<noteq> ERROR_NOT_ALL_ASSIGNED)
       \<and> (\<not> fst (EnableDebugPrivilege w s) \<longrightarrow>
            handles (snd (EnableDebugPrivilege w s)) = TokenHandle # handles s)
       \<and> (fst (EnableDebugPrivilege w s) \<longrightarrow>
            handles (snd (EnableDebugPrivilege w s)) = handles s)"
  using assms by (simp add: EnableDebugPrivilege_def open_handle_def CloseHandle_def Let_def)

theorem EnableDebugPrivilege_token_handle_witness:
  "OpenProcessToken_ok unprivileged_os
   \<and> \<not> fst (EnableDebugPrivilege unprivileged_os initial_state)
   \<and> handles (snd (EnableDebugPrivilege unprivileged_os initial_state)) = [TokenHandle]
   \<and> OpenProcessToken_ok friendly_os
   \<and> fst (EnableDebugPrivilege friendly_os initial_state)
   \<and> handles (snd (EnableDebugPrivilege friendly_os initial_state)) = []"
proof -
  have a: "OpenProcessToken_ok unprivileged_os"
    by (simp add: unprivileged_os_def friendly_os_def)
  have b: "OpenProcessToken_ok friendly_os"
    by (simp add: friendly_os_def)
  have c: "GetLastError_adjust unprivileged_os = ERROR_NOT_ALL_ASSIGNED"
    by (simp add: unprivileged_os_def)
  have d: "LookupPrivilegeValue_ok friendly_os \<and> AdjustTokenPrivileges_ok friendly_os
      \<and> GetLastError_adjust friendly_os \<noteq> ERROR_NOT_ALL_ASSIGNED"
    by (simp add: friendly_os_def ERROR_NOT_ALL_ASSIGNED_def)
  show ?thesis
    using a b c d
      EnableDebugPrivilege_token_handle [OF a, of initial_state]
      EnableDebugPrivilege_token_handle [OF b, of initial_state]
    by (simp add: initial_state_def)
qed

section \<open>Failure of the privilege elevation\<close>

text \<open>
  C1, as stated, fails: when the elevation fails, the pass does not go on in a degraded
  mode. Here the token cannot be opened, the snapshot would deliver three entries, and
  the callback is never invoked.
\<close>

theorem elevation_failure_counterexample:
  "\<not> fst (EnableDebugPrivilege denied_os initial_state)
   \<and> CreateToolhelp32Snapshot_out denied_os = Some snapshot3
   \<and> length snapshot3 = 3
   \<and> calls (GetProcessDetails denied_os never initial_state) = []"
  by (simp add: GetProcessDetails_denied effect_simps EnableDebugPrivilege_frame
      EnableDebugPrivilege_True_iff denied_os_def friendly_os_def snapshot3_def initial_state_def)

text \<open>
  C1, amended. If the privilege elevation fails at the start of a pass,
  \<open>GetProcessDetails\<close> writes the diagnostic and returns at once: the callback is not
  invoked for any process, no handle is opened for a snapshot, nothing is allocated and
  the flag is left as it was.
\<close>

theorem elevation_failure_aborts:
  assumes "\<not> fst (EnableDebugPrivilege w s)"
  shows "wcout (GetProcessDetails w req s) = wcout s @ [Line ''Failed to enable debug privilege.'']
       \<and> calls (GetProcessDetails w req s) = calls s
       \<and> handles (GetProcessDetails w req s) = handles (snd (EnableDebugPrivilege w s))
       \<and> heap (GetProcessDetails w req s) = heap s
       \<and> cancelRequested (GetProcessDetails w req s) = cancelRequested s"
  by (simp add: GetProcessDetails_denied [OF assms] effect_simps EnableDebugPrivilege_frame)

theorem elevation_failure_aborts_witness:
  "\<not> fst (EnableDebugPrivilege denied_os initial_state)
   \<and> wcout (GetProcessDetails denied_os never initial_state)
        = [Line ''Failed to enable debug privilege.'']
   \<and> calls (GetProcessDetails denied_os never initial_state) = []"
proof -
  have a: "\<not> fst (EnableDebugPrivilege denied_os initial_state)"
    by (simp add: EnableDebugPrivilege_True_iff denied_os_def)
  show ?thesis
    using a elevation_failure_aborts [OF a, of never] by (simp add: initial_state_def)
qed

section \<open>Failure of the snapshot\<close>

text \<open>
  C8, as stated, fails in its last part: a failing snapshot is not the only condition
  that aborts a whole pass. Here the snapshot would deliver three entries, and the pass
  ends with the diagnostic of the privilege elevation and no invocation of the callback.
\<close>

theorem only_snapshot_failure_aborts_counterexample:
  "CreateToolhelp32Snapshot_out unprivileged_os = Some snapshot3
   \<and> snapshot3 \<noteq> []
   \<and> calls (GetProcessDetails unprivileged_os never initial_state) = []
   \<and> wcout (GetProcessDetails unprivileged_os never initial_state)
        = [Line ''Failed to enable debug privilege.'']"
  by (simp add: GetProcessDetails_denied effect_simps EnableDebugPrivilege_frame
      EnableDebugPrivilege_True_iff unprivileged_os_def friendly_os_def snapshot3_def
      initial_state_def)

text \<open>
  C8, amended. If the creation of the snapshot fails, or the reading of its first entry,
  \<open>GetProcessDetails\<close> writes a diagnostic and returns without having invoked the
  callback (and with the snapshot handle closed again). A pass invokes the callback zero
  times exactly when the privilege elevation fails, the snapshot cannot be created or its
  first entry cannot be read.
\<close>

theorem snapshot_failure_aborts:
  "(fst (EnableDebugPrivilege w s) \<and> CreateToolhelp32Snapshot_out w = None \<longrightarrow>
      wcout (GetProcessDetails w req s) = wcout s @ [Line ''Failed to create snapshot.'']
      \<and> calls (GetProcessDetails w req s) = calls s)
   \<and> (fst (EnableDebugPrivilege w s) \<and> CreateToolhelp32Snapshot_out w = Some [] \<longrightarrow>
      wcout (GetProcessDetails w req s) = wcout s @
         [ErrorCode (GetLastError_first w), Line ''Failed to get first process from snapshot.'']
      \<and> calls (GetProcessDetails w req s) = calls s
      \<and> handles (GetProcessDetails w req s) = handles s)
   \<and> (calls (GetProcessDetails w req s) = calls s \<longleftrightarrow>
        \<not> fst (EnableDebugPrivilege w s) \<or> CreateToolhelp32Snapshot_out w = None
        \<or> CreateToolhelp32Snapshot_out w = Some [])"
proof (intro conjI impI)
  assume "fst (EnableDebugPrivilege w s) \<and> CreateToolhelp32Snapshot_out w = None"
  then show "wcout (GetProcessDetails w req s) = wcout s @ [Line ''Failed to create snapshot.'']"
    and "calls (GetProcessDetails w req s) = calls s"
    by (simp_all add: GetProcessDetails_no_snapshot effect_simps EnableDebugPrivilege_frame)
next
  assume a: "fst (EnableDebugPrivilege w s) \<and> CreateToolhelp32Snapshot_out w = Some []"
  then show "wcout (GetProcessDetails w req s) = wcout s @
         [ErrorCode (GetLastError_first w), Line ''Failed to get first process from snapshot.'']"
    and "calls (GetProcessDetails w req s) = calls s"
    by (simp_all add: GetProcessDetails_no_first effect_simps EnableDebugPrivilege_frame)
  from a have "handles (snd (EnableDebugPrivilege w s)) = handles s"
    by (simp add: EnableDebugPrivilege_def open_handle_def CloseHandle_def Let_def
        split: if_splits)
  with a show "handles (GetProcessDetails w req s) = handles s"
    by (simp add: GetProcessDetails_no_first effect_simps)
next
  show "calls (GetProcessDetails w req s) = calls s \<longleftrightarrow>
        \<not> fst (EnableDebugPrivilege w s) \<or> CreateToolhelp32Snapshot_out w = None
        \<or> CreateToolhelp32Snapshot_out w = Some []"
  proof (cases "fst (EnableDebugPrivilege w s)")
    case False
    then show ?thesis
      by (simp add: GetProcessDetails_denied effect_simps EnableDebugPrivilege_frame)
  next
    case True
    show ?thesis
    proof (cases "CreateToolhelp32Snapshot_out w")
      case None
      with True show ?thesis
        by (simp add: GetProcessDetails_no_snapshot effect_simps EnableDebugPrivilege_frame)
    next
      case (Some es)
      show ?thesis
      proof (cases es)
        case Nil
        with True Some show ?thesis
          by (simp add: GetProcessDetails_no_first effect_simps EnableDebugPrivilege_frame)
      next
        case (Cons e rest)
        from do_while_prefix [of rest w req 0 e "open_handle SnapshotHandle (snd (EnableDebugPrivilege w s))"]
        obtain k where "0 < k"
          "calls (do_while w req 0 e rest (open_handle SnapshotHandle (snd (EnableDebugPrivilege w s))))
            = calls s @ map (delivered w) (take k (e # rest))"
          by (auto simp: start_simps)
        then have "calls (do_while w req 0 e rest (open_handle SnapshotHandle (snd (EnableDebugPrivilege w s))))
            \<noteq> calls s"
          by (cases k) simp_all
        with True Some Cons show ?thesis
          by (simp add: GetProcessDetails_calls_entered)
      qed
    qed
  qed
qed

theorem snapshot_failure_aborts_witness:
  "fst (EnableDebugPrivilege no_snapshot_os initial_state)
   \<and> CreateToolhelp32Snapshot_out no_snapshot_os = None
   \<and> wcout (GetProcessDetails no_snapshot_os never initial_state)
        = [Line ''Failed to create snapshot.'']
   \<and> calls (GetProcessDetails no_snapshot_os never initial_state) = []
   \<and> fst (EnableDebugPrivilege empty_snapshot_os initial_state)
   \<and> CreateToolhelp32Snapshot_out empty_snapshot_os = Some []
   \<and> wcout (GetProcessDetails empty_snapshot_os never initial_state)
        = [ErrorCode 18, Line ''Failed to get first process from snapshot.'']
   \<and> calls (GetProcessDetails empty_snapshot_os never initial_state) = []
   \<and> handles (GetProcessDetails empty_snapshot_os never initial_state) = []"
proof -
  have a: "fst (EnableDebugPrivilege no_snapshot_os initial_state)
      \<and> CreateToolhelp32Snapshot_out no_snapshot_os = None"
    by (simp add: EnableDebugPrivilege_True_iff no_snapshot_os_def friendly_os_def
        ERROR_NOT_ALL_ASSIGNED_def)
  have b: "fst (EnableDebugPrivilege empty_snapshot_os initial_state)
      \<and> CreateToolhelp32Snapshot_out empty_snapshot_os = Some []"
    by (simp add: EnableDebugPrivilege_True_iff empty_snapshot_os_def friendly_os_def
        ERROR_NOT_ALL_ASSIGNED_def)
  have c: "GetLastError_first empty_snapshot_os = 18"
    by (simp add: empty_snapshot_os_def)
  show ?thesis
    using a b c
      snapshot_failure_aborts [of no_snapshot_os initial_state never]
      snapshot_failure_aborts [of empty_snapshot_os initial_state never]
    by (simp add: initial_state_def)
qed

section \<open>One invocation for each entry, in the snapshot's order\<close>

text \<open>
  C7. In a pass that has its privilege and its snapshot, the callback is invoked once for
  each entry processed, in the order of the snapshot: the process identifiers of the new
  invocations are those of a prefix of the snapshot, entry by entry. Whatever the system
  answers about the target processes (whether the enrichment of an entry succeeds or
  fails), a pass in which no cancellation is seen invokes the callback for every entry.
\<close>

theorem callback_once_per_entry:
  assumes "fst (EnableDebugPrivilege w s)" and "CreateToolhelp32Snapshot_out w = Some entries"
  shows "length (calls (GetProcessDetails w req s)) - length (calls s) \<le> length entries
    \<and> map cb_pid (calls (GetProcessDetails w req s)) = map cb_pid (calls s) @
         map th32ProcessID
           (take (length (calls (GetProcessDetails w req s)) - length (calls s)) entries)
    \<and> (\<not> cancelRequested s \<and> (\<forall>i. Suc i < length entries \<longrightarrow> \<not> req i) \<longrightarrow>
         map cb_pid (calls (GetProcessDetails w req s)) =
           map cb_pid (calls s) @ map th32ProcessID entries)"
proof (intro conjI impI)
  show "length (calls (GetProcessDetails w req s)) - length (calls s) \<le> length entries"
    using GetProcessDetails_calls_count [OF assms(2)] by blast
  have "map cb_pid (calls (GetProcessDetails w req s)) =
      map cb_pid (calls s @ map (delivered w)
         (take (length (calls (GetProcessDetails w req s)) - length (calls s)) entries))"
    using GetProcessDetails_calls_count [OF assms(2), of req s] by simp
  then show "map cb_pid (calls (GetProcessDetails w req s)) = map cb_pid (calls s) @
         map th32ProcessID
           (take (length (calls (GetProcessDetails w req s)) - length (calls s)) entries)"
    by (simp add: delivered_pid)
next
  assume a: "\<not> cancelRequested s \<and> (\<forall>i. Suc i < length entries \<longrightarrow> \<not> req i)"
  show "map cb_pid (calls (GetProcessDetails w req s)) =
           map cb_pid (calls s) @ map th32ProcessID entries"
  proof (cases entries)
    case Nil
    with assms show ?thesis
      by (simp add: GetProcessDetails_no_first effect_simps EnableDebugPrivilege_frame)
  next
    case (Cons e rest)
    have q: "\<forall>j<length rest. \<not> req (0 + j)"
      using a Cons by simp
    have f: "\<not> cancelRequested (open_handle SnapshotHandle (snd (EnableDebugPrivilege w s)))"
      using a by (simp add: start_simps)
    from do_while_uncancelled [OF f q, of w e]
    show ?thesis
      using assms Cons
      by (simp add: GetProcessDetails_calls_entered start_simps delivered_pid)
  qed
qed

theorem callback_once_per_entry_witness:
  "fst (EnableDebugPrivilege friendly_os initial_state)
   \<and> CreateToolhelp32Snapshot_out friendly_os = Some snapshot3
   \<and> \<not> cancelRequested initial_state
   \<and> \<not> never 0 \<and> \<not> never 1
   \<and> map cb_pid (calls (GetProcessDetails friendly_os never initial_state)) = [0, 4, 7]
   \<and> map cb_cmdline (calls (GetProcessDetails friendly_os never initial_state))
       = [NULL, NULL, Text [Some 0x68, Some 0, Some 0x69, Some 0, Some 0, Some 0]]"
proof -
  have a: "fst (EnableDebugPrivilege friendly_os initial_state)"
    by (simp add: EnableDebugPrivilege_True_iff friendly_os_def ERROR_NOT_ALL_ASSIGNED_def)
  have b: "CreateToolhelp32Snapshot_out friendly_os = Some snapshot3"
    by (simp add: friendly_os_def)
  have c: "\<not> cancelRequested initial_state \<and> (\<forall>i. Suc i < length snapshot3 \<longrightarrow> \<not> never i)"
    by (simp add: initial_state_def never_def)
  have d: "map cb_cmdline (calls (GetProcessDetails friendly_os never initial_state))
       = [NULL, NULL, Text [Some 0x68, Some 0, Some 0x69, Some 0, Some 0, Some 0]]"
    by code_simp
  from callback_once_per_entry [OF a b, of never] c
  have "map cb_pid (calls (GetProcessDetails friendly_os never initial_state)) =
      map cb_pid (calls initial_state) @ map th32ProcessID snapshot3"
    by blast
  then have "map cb_pid (calls (GetProcessDetails friendly_os never initial_state)) = [0, 4, 7]"
    by (simp add: initial_state_def snapshot3_def)
  moreover have "\<not> never 0 \<and> \<not> never 1"
    by (simp add: never_def)
  ultimately show ?thesis using a b c d by blast
qed

section \<open>Cancellation\<close>

text \<open>
  C4, as stated, fails in its last part. With three entries and a request that arrives
  while the third, the last, is being processed, the flag becomes true during the pass
  and the callback is invoked three times: not fewer times than there are entries,
  although the request did not arrive after the last entry. With a single entry and the
  flag set before the pass, the callback is invoked once.
\<close>

theorem cancellation_counterexample:
  "\<not> cancelRequested initial_state
   \<and> cancelRequested (GetProcessDetails friendly_os during_third initial_state)
   \<and> length snapshot3 = 3
   \<and> length (calls (GetProcessDetails friendly_os during_third initial_state)) = 3
   \<and> cancelRequested (RequestCancellation initial_state)
   \<and> CreateToolhelp32Snapshot_out lonely_os = Some [\<lparr>th32ProcessID = 4, szExeFile = L ''System''\<rparr>]
   \<and> length (calls (GetProcessDetails lonely_os never (RequestCancellation initial_state))) = 1"
proof -
  have a: "\<not> cancelRequested initial_state" by (simp add: initial_state_def)
  have b: "cancelRequested (GetProcessDetails friendly_os during_third initial_state)"
    by code_simp
  have c: "length snapshot3 = 3" by (simp add: snapshot3_def)
  have d: "length (calls (GetProcessDetails friendly_os during_third initial_state)) = 3"
    by code_simp
  have e: "cancelRequested (RequestCancellation initial_state)"
    by (simp add: RequestCancellation_def)
  have f: "CreateToolhelp32Snapshot_out lonely_os = Some [\<lparr>th32ProcessID = 4, szExeFile = L ''System''\<rparr>]"
    by (simp add: lonely_os_def)
  have g: "length (calls (GetProcessDetails lonely_os never (RequestCancellation initial_state))) = 1"
    by code_simp
  from a b c d e f g show ?thesis by blast
qed

text \<open>
  C4, amended. The flag is read only between two entries. Let the flag become true while
  entry number \<open>m\<close> (from 0) is being processed, or be true already when the pass
  starts, which counts as \<open>m = 0\<close>. Then the entries up to and including number
  \<open>m\<close> each receive the invocation they would have received without the request, no
  later entry is processed, and the number of invocations is smaller than the number of
  entries exactly when entry \<open>m\<close> is not the last one.
\<close>

theorem cancellation_between_entries:
  assumes "fst (EnableDebugPrivilege w s)" and "CreateToolhelp32Snapshot_out w = Some entries"
    and "m < length entries"
    and "cancelRequested s \<and> m = 0 \<or> \<not> cancelRequested s \<and> req m \<and> (\<forall>j<m. \<not> req j)"
  shows "calls (GetProcessDetails w req s) = calls s @ map (delivered w) (take (Suc m) entries)
    \<and> cancelRequested (GetProcessDetails w req s)
    \<and> (length (calls (GetProcessDetails w req s)) - length (calls s) < length entries
          \<longleftrightarrow> Suc m < length entries)"
proof -
  from assms(3) obtain e rest where es: "entries = e # rest"
    by (cases entries) auto
  let ?s0 = "open_handle SnapshotHandle (snd (EnableDebugPrivilege w s))"
  have main: "calls (do_while w req 0 e rest ?s0) = calls s @ map (delivered w) (take (Suc m) (e # rest))
      \<and> cancelRequested (do_while w req 0 e rest ?s0)"
  proof (cases "cancelRequested s")
    case True
    with assms(4) have m: "m = 0" by blast
    from True have "cancelRequested ?s0" by (simp add: start_simps)
    then show ?thesis
      by (simp add: do_while_flag_set step_simps start_simps m)
  next
    case False
    with assms(4) have r: "req (0 + m)" and q: "\<forall>j<m. \<not> req (0 + j)" by simp_all
    from False have f: "\<not> cancelRequested ?s0" by (simp add: start_simps)
    have l: "m \<le> length rest" using assms(3) es by simp
    from do_while_cancelled_at [OF f r q l, of w e] show ?thesis
      by (simp add: start_simps)
  qed
  have c: "calls (GetProcessDetails w req s) = calls s @ map (delivered w) (take (Suc m) entries)"
    using main assms(1,2) es by (simp add: GetProcessDetails_calls_entered)
  have f: "cancelRequested (GetProcessDetails w req s)"
    using main assms(1,2) es by (simp add: GetProcessDetails_calls_entered)
  have n: "length (calls (GetProcessDetails w req s)) - length (calls s) = Suc m"
    using c assms(3) by simp
  from c f n show ?thesis by simp
qed

theorem cancellation_between_entries_witness:
  "fst (EnableDebugPrivilege friendly_os initial_state)
   \<and> CreateToolhelp32Snapshot_out friendly_os = Some snapshot3
   \<and> (1::nat) < length snapshot3
   \<and> \<not> cancelRequested initial_state \<and> during_second 1 \<and> \<not> during_second 0
   \<and> calls (GetProcessDetails friendly_os during_second initial_state)
        = map (delivered friendly_os) (take 2 snapshot3)
   \<and> map cb_pid (calls (GetProcessDetails friendly_os during_second initial_state)) = [0, 4]
   \<and> cancelRequested (GetProcessDetails friendly_os during_second initial_state)"
proof -
  have a: "fst (EnableDebugPrivilege friendly_os initial_state)"
    by (simp add: EnableDebugPrivilege_True_iff friendly_os_def ERROR_NOT_ALL_ASSIGNED_def)
  have b: "CreateToolhelp32Snapshot_out friendly_os = Some snapshot3"
    by (simp add: friendly_os_def)
  have c: "(1::nat) < length snapshot3"
    by (simp add: snapshot3_def)
  have d: "\<not> cancelRequested initial_state \<and> during_second 1 \<and> (\<forall>j<1. \<not> during_second j)"
    by (simp add: initial_state_def during_second_def)
  then have d': "cancelRequested initial_state \<and> (1::nat) = 0
      \<or> \<not> cancelRequested initial_state \<and> during_second 1 \<and> (\<forall>j<1. \<not> during_second j)"
    by blast
  note t = cancellation_between_entries [OF a b c d']
  have e: "calls (GetProcessDetails friendly_os during_second initial_state)
        = map (delivered friendly_os) (take 2 snapshot3)"
    using t by (simp add: initial_state_def numeral_2_eq_2)
  then have f: "map cb_pid (calls (GetProcessDetails friendly_os during_second initial_state)) = [0, 4]"
    by (simp add: delivered_pid snapshot3_def)
  have g: "\<not> during_second 0"
    by (simp add: during_second_def)
  from a b c d e f g t show ?thesis by blast
qed

text \<open>
  C9. The flag is false when the module is loaded; \<open>RequestCancellation\<close> sets it;
  the privilege elevation, the reader of the command line and a pass during which the host
  makes no request leave it as it is, so nothing in the module resets it. Once it is set,
  a pass leaves it set and invokes the callback at most once, and so does every pass
  after it.
\<close>

theorem cancellation_flag_monotone:
  "\<not> cancelRequested initial_state
   \<and> cancelRequested (RequestCancellation s)
   \<and> cancelRequested (snd (EnableDebugPrivilege w s)) = cancelRequested s
   \<and> cancelRequested (snd (snd (snd (GetProcessCommandLine w pid p nm n s)))) = cancelRequested s
   \<and> cancelRequested (GetProcessDetails w never s) = cancelRequested s
   \<and> (cancelRequested s \<longrightarrow>
        cancelRequested (GetProcessDetails w req s)
        \<and> length (calls (GetProcessDetails w req s)) \<le> Suc (length (calls s)))"
proof (intro conjI impI)
  show "\<not> cancelRequested initial_state" by (simp add: initial_state_def)
  show "cancelRequested (RequestCancellation s)" by (simp add: RequestCancellation_def)
  show "cancelRequested (snd (EnableDebugPrivilege w s)) = cancelRequested s"
    by (simp add: EnableDebugPrivilege_frame)
  show "cancelRequested (snd (snd (snd (GetProcessCommandLine w pid p nm n s)))) = cancelRequested s"
    by (simp add: GetProcessCommandLine_frame)
  show "cancelRequested (GetProcessDetails w never s) = cancelRequested s"
    by (simp add: GetProcessDetails_def Let_def case_prod_beta effect_simps EnableDebugPrivilege_frame
        do_while_never split: option.splits list.splits)
next
  assume c: "cancelRequested s"
  show "cancelRequested (GetProcessDetails w req s)"
    using c
    by (simp add: GetProcessDetails_def Let_def case_prod_beta effect_simps EnableDebugPrivilege_frame
        do_while_monotone split: option.splits list.splits)
  show "length (calls (GetProcessDetails w req s)) \<le> Suc (length (calls s))"
    using c
    by (simp add: GetProcessDetails_def Let_def case_prod_beta effect_simps EnableDebugPrivilege_frame
        do_while_flag_set step_simps split: option.splits list.splits)
qed

theorem cancellation_flag_monotone_witness:
  "cancelRequested (RequestCancellation initial_state)
   \<and> cancelRequested (GetProcessDetails friendly_os never (RequestCancellation initial_state))
   \<and> length (calls (GetProcessDetails friendly_os never (RequestCancellation initial_state))) \<le> 1
   \<and> length (calls (GetProcessDetails friendly_os never
        (GetProcessDetails friendly_os never (RequestCancellation initial_state)))) \<le> 2"
proof -
  let ?s1 = "RequestCancellation initial_state"
  let ?s2 = "GetProcessDetails friendly_os never ?s1"
  have a: "cancelRequested ?s1"
    using cancellation_flag_monotone [of initial_state] by blast
  have b: "cancelRequested ?s2 \<and> length (calls ?s2) \<le> Suc (length (calls ?s1))"
    using cancellation_flag_monotone [of ?s1 friendly_os _ _ _ _ never] a by blast
  have c: "length (calls (GetProcessDetails friendly_os never ?s2)) \<le> Suc (length (calls ?s2))"
    using cancellation_flag_monotone [of ?s2 friendly_os _ _ _ _ never] b by blast
  have d: "calls ?s1 = []" by (simp add: RequestCancellation_def initial_state_def)
  from a b c d show ?thesis by simp
qed

section \<open>The name handed to the callback\<close>

text \<open>
  C2. The placeholder \<open><unknown>\<close> with which the name buffer is initialised is
  overwritten by the copy of the entry's name, also when that name is empty: for an entry
  with an empty executable name, whose process cannot be opened, the callback receives
  the empty name.
\<close>

theorem placeholder_overwritten:
  "CreateToolhelp32Snapshot_out nameless_os = Some [\<lparr>th32ProcessID = 9, szExeFile = []\<rparr>]
   \<and> calls (GetProcessDetails nameless_os never initial_state)
       = [\<lparr>cb_pid = 9, cb_process_name = [], cb_cmdline = NULL\<rparr>]"
proof -
  have a: "CreateToolhelp32Snapshot_out nameless_os = Some [\<lparr>th32ProcessID = 9, szExeFile = []\<rparr>]"
    by (simp add: nameless_os_def)
  have b: "calls (GetProcessDetails nameless_os never initial_state)
       = [\<lparr>cb_pid = 9, cb_process_name = [], cb_cmdline = NULL\<rparr>]"
    by code_simp
  from a b show ?thesis by blast
qed

text \<open>
  C3, as stated, fails: the reader writes the module base name into the caller's name
  buffer before its later steps, so a reader that fails after that step leaves another
  text than the snapshot's. Here every enrichment fails, and the third entry, named
  \<open>notepad.exe\<close> in the snapshot, reaches the callback as \<open>calc.exe\<close>.
\<close>

theorem failed_enrichment_name_counterexample:
  "CreateToolhelp32Snapshot_out reused_os = Some snapshot3
   \<and> map szExeFile snapshot3 = [L ''[System Process]'', L ''System'', L ''notepad.exe'']
   \<and> map cb_cmdline (calls (GetProcessDetails reused_os never initial_state)) = [NULL, NULL, NULL]
   \<and> map cb_process_name (calls (GetProcessDetails reused_os never initial_state))
       = [L ''[System Process]'', L ''System'', L ''calc.exe'']
   \<and> L ''calc.exe'' \<noteq> L ''notepad.exe''"
proof -
  have a: "CreateToolhelp32Snapshot_out reused_os = Some snapshot3"
    by (simp add: reused_os_def friendly_os_def)
  have b: "map szExeFile snapshot3 = [L ''[System Process]'', L ''System'', L ''notepad.exe'']"
    by (simp add: snapshot3_def)
  have c: "map cb_cmdline (calls (GetProcessDetails reused_os never initial_state)) = [NULL, NULL, NULL]"
    by code_simp
  have d: "map cb_process_name (calls (GetProcessDetails reused_os never initial_state))
       = [L ''[System Process]'', L ''System'', L ''calc.exe'']"
    by code_simp
  have e: "L ''calc.exe'' \<noteq> L ''notepad.exe''"
    by (simp add: L_def)
  from a b c d e show ?thesis by blast
qed

text \<open>
  C3, amended. For an entry whose enrichment fails (the callback receives a null command
  line): when the process cannot be opened, the name delivered is the entry's executable
  name, cut to \<open>MAX_PATH - 1\<close> units; when it can be opened, the name delivered is the
  text that \<open>GetModuleBaseNameW\<close> left in the buffer.
\<close>

theorem failed_enrichment_name:
  assumes "CreateToolhelp32Snapshot_out w = Some entries"
    and "length (calls s) + i < length (calls (GetProcessDetails w req s))"
    and "cb_cmdline (calls (GetProcessDetails w req s) ! (length (calls s) + i)) = NULL"
  shows "i < length entries
    \<and> cb_pid (calls (GetProcessDetails w req s) ! (length (calls s) + i))
        = th32ProcessID (entries ! i)
    \<and> (\<not> OpenProcess_ok (target w (th32ProcessID (entries ! i))) \<longrightarrow>
         cb_process_name (calls (GetProcessDetails w req s) ! (length (calls s) + i))
           = take (MAX_PATH - 1) (szExeFile (entries ! i)))
    \<and> (OpenProcess_ok (target w (th32ProcessID (entries ! i))) \<longrightarrow>
         cb_process_name (calls (GetProcessDetails w req s) ! (length (calls s) + i))
           = snd (GetModuleBaseNameW_out (target w (th32ProcessID (entries ! i)))
                (take (MAX_PATH - 1) (szExeFile (entries ! i))) MAX_PATH))"
proof -
  let ?n = "length (calls (GetProcessDetails w req s)) - length (calls s)"
  from GetProcessDetails_calls_count [OF assms(1), of req s]
  have n: "?n \<le> length entries"
    and c: "calls (GetProcessDetails w req s) = calls s @ map (delivered w) (take ?n entries)"
    by blast+
  have i: "i < ?n" using assms(2) by simp
  then have il: "i < length entries" using n by simp
  have "calls (GetProcessDetails w req s) ! (length (calls s) + i)
      = (calls s @ map (delivered w) (take ?n entries)) ! (length (calls s) + i)"
    using c by simp
  also have "\<dots> = map (delivered w) (take ?n entries) ! i"
    by (simp add: nth_append)
  also have "\<dots> = delivered w (entries ! i)"
    using i il by simp
  finally have d: "calls (GetProcessDetails w req s) ! (length (calls s) + i) = delivered w (entries ! i)" .
  show ?thesis
    unfolding d using il by (simp add: delivered_pid delivered_name wcsncpy_s_TRUNCATE_def)
qed

theorem failed_enrichment_name_witness:
  "CreateToolhelp32Snapshot_out reused_os = Some snapshot3
   \<and> length (calls initial_state) + 2 < length (calls (GetProcessDetails reused_os never initial_state))
   \<and> cb_cmdline (calls (GetProcessDetails reused_os never initial_state) ! (length (calls initial_state) + 2)) = NULL
   \<and> OpenProcess_ok (target reused_os (th32ProcessID (snapshot3 ! 2)))
   \<and> cb_process_name (calls (GetProcessDetails reused_os never initial_state) ! (length (calls initial_state) + 2))
        = L ''calc.exe''
   \<and> length (calls initial_state) + 0 < length (calls (GetProcessDetails reused_os never initial_state))
   \<and> cb_cmdline (calls (GetProcessDetails reused_os never initial_state) ! (length (calls initial_state) + 0)) = NULL
   \<and> \<not> OpenProcess_ok (target reused_os (th32ProcessID (snapshot3 ! 0)))
   \<and> cb_process_name (calls (GetProcessDetails reused_os never initial_state) ! (length (calls initial_state) + 0))
        = L ''[System Process]''"
proof -
  have a: "CreateToolhelp32Snapshot_out reused_os = Some snapshot3"
    by (simp add: reused_os_def friendly_os_def)
  have b2: "length (calls initial_state) + 2 < length (calls (GetProcessDetails reused_os never initial_state))"
    by code_simp
  have c2: "cb_cmdline (calls (GetProcessDetails reused_os never initial_state) ! (length (calls initial_state) + 2)) = NULL"
    by code_simp
  have b0: "length (calls initial_state) + 0 < length (calls (GetProcessDetails reused_os never initial_state))"
    by code_simp
  have c0: "cb_cmdline (calls (GetProcessDetails reused_os never initial_state) ! (length (calls initial_state) + 0)) = NULL"
    by code_simp
  have o2: "OpenProcess_ok (target reused_os (th32ProcessID (snapshot3 ! 2)))"
    by (simp add: reused_os_def snapshot3_def renamed_target_def notepad_target_def)
  have o0: "\<not> OpenProcess_ok (target reused_os (th32ProcessID (snapshot3 ! 0)))"
    by (simp add: reused_os_def snapshot3_def closed_target_def)
  have g: "snd (GetModuleBaseNameW_out (target reused_os (th32ProcessID (snapshot3 ! 2)))
                (take (MAX_PATH - 1) (szExeFile (snapshot3 ! 2))) MAX_PATH) = L ''calc.exe''"
    by (simp add: reused_os_def snapshot3_def renamed_target_def notepad_target_def)
  have h: "take (MAX_PATH - 1) (szExeFile (snapshot3 ! 0)) = L ''[System Process]''"
    by (simp add: snapshot3_def MAX_PATH_def L_def)
  from failed_enrichment_name [OF a b2 c2] o2 g
  have r2: "cb_process_name (calls (GetProcessDetails reused_os never initial_state) ! (length (calls initial_state) + 2))
        = L ''calc.exe''" by simp
  from failed_enrichment_name [OF a b0 c0] o0 h
  have r0: "cb_process_name (calls (GetProcessDetails reused_os never initial_state) ! (length (calls initial_state) + 0))
        = L ''[System Process]''" by simp
  from a b2 c2 o2 r2 b0 c0 o0 r0 show ?thesis by blast
qed

section \<open>The command line handed to the callback\<close>

text \<open>
  C5, as stated, fails in one part: the array returned is not always a full copy. When
  the descriptor reports an odd number of bytes, the terminator stored at unit
  \<open>Length / 2\<close> overwrites the last byte read. Here three bytes are read, and neither
  the array returned nor what the callback receives holds the third of them.
\<close>

theorem command_line_copied_counterexample:
  "ReadProcessMemory (memory (target short_odd_os 7)) 0x3000 3 = Some [0x68, 0, 0x69]
   \<and> GetProcessCommandLine short_odd_os 7 None (L ''notepad.exe'') MAX_PATH initial_state
       = (True, Some 0, L ''notepad.exe'',
          initial_state\<lparr>heap := [Some [Some 0x68, Some 0, Some 0, Some 0]]\<rparr>)
   \<and> cb_cmdline (delivered short_odd_os \<lparr>th32ProcessID = 7, szExeFile = L ''notepad.exe''\<rparr>)
       = Text [Some 0x68, Some 0, Some 0, Some 0]
   \<and> Some (0x69::BYTE) \<notin> set [Some 0x68, Some 0, Some 0, Some 0]"
proof -
  have a: "ReadProcessMemory (memory (target short_odd_os 7)) 0x3000 3 = Some [0x68, 0, 0x69]"
    by code_simp
  have b: "GetProcessCommandLine short_odd_os 7 None (L ''notepad.exe'') MAX_PATH initial_state
       = (True, Some 0, L ''notepad.exe'',
          initial_state\<lparr>heap := [Some [Some 0x68, Some 0, Some 0, Some 0]]\<rparr>)"
    by code_simp
  have c: "cb_cmdline (delivered short_odd_os \<lparr>th32ProcessID = 7, szExeFile = L ''notepad.exe''\<rparr>)
       = Text [Some 0x68, Some 0, Some 0, Some 0]"
    by code_simp
  have d: "Some (0x69::BYTE) \<notin> set [Some 0x68, Some 0, Some 0, Some 0]"
    by simp
  from a b c d show ?thesis by blast
qed

text \<open>
  C5, amended. \<open>GetProcessCommandLine\<close> hands over no partly written array. Either it
  returns true: then the read of all \<open>Length\<close> bytes of the command line has succeeded,
  and its pointer leads to a live array of \<open>Length / 2 + 1\<close> units, every byte of it
  written, that holds the first \<open>2 * (Length / 2)\<close> bytes read followed by the
  terminator, which is the whole command line when \<open>Length\<close> is even. Or it returns
  false, and then the arrays that are live are those that were live before the call; when
  the failure is that of the third read, the one after the allocation, the array
  allocated is released on return. What the callback receives for an entry is a null
  pointer or such an array.
\<close>

theorem command_line_copied_or_absent:
  "(fst (GetProcessCommandLine w pid p nm n s) \<longrightarrow>
      (\<exists>q buf pbi' peb' upp' bytes.
           NtQueryInformationProcess_out (target w pid) = (STATUS_SUCCESS, pbi')
         \<and> peb_at (target w pid) (PebBaseAddress pbi') = Some peb'
         \<and> params_at (target w pid) (ProcessParameters peb') = Some upp'
         \<and> ReadProcessMemory (memory (target w pid)) (Buffer (CommandLine upp'))
               (unat (Length (CommandLine upp'))) = Some bytes
         \<and> length bytes = unat (Length (CommandLine upp'))
         \<and> fst (snd (GetProcessCommandLine w pid p nm n s)) = Some q
         \<and> deref (snd (snd (snd (GetProcessCommandLine w pid p nm n s)))) (Some q) = Text buf
         \<and> buf = map Some (take (2 * (unat (Length (CommandLine upp')) div 2)) bytes)
                 @ [Some 0, Some 0]
         \<and> length buf = 2 * (unat (Length (CommandLine upp')) div 2 + 1)
         \<and> None \<notin> set buf
         \<and> (even (unat (Length (CommandLine upp'))) \<longrightarrow> buf = map Some bytes @ [Some 0, Some 0])
         \<and> live_buffers (snd (snd (snd (GetProcessCommandLine w pid p nm n s))))
             = live_buffers s @ [buf]))
   \<and> (\<not> fst (GetProcessCommandLine w pid p nm n s) \<longrightarrow>
         live_buffers (snd (snd (snd (GetProcessCommandLine w pid p nm n s)))) = live_buffers s)
   \<and> (OpenProcess_ok (target w pid)
        \<and> GetModuleBaseNameW_out (target w pid) nm n = (m, nm1) \<and> m \<noteq> 0
        \<and> GetModuleHandleW_ntdll_ok w \<and> GetProcAddress_ok w
        \<and> NtQueryInformationProcess_out (target w pid) = (STATUS_SUCCESS, pbi)
        \<and> peb_at (target w pid) (PebBaseAddress pbi) = Some peb
        \<and> params_at (target w pid) (ProcessParameters peb) = Some upp
        \<and> ReadProcessMemory (memory (target w pid)) (Buffer (CommandLine upp))
             (unat (Length (CommandLine upp))) = None \<longrightarrow>
         GetProcessCommandLine w pid p nm n s =
           (False, Some (length (heap s)), nm1, s\<lparr>heap := heap s @ [None]\<rparr>))
   \<and> (cb_cmdline (delivered w e) = NULL
        \<or> (\<exists>pbi' peb' upp' bytes.
              NtQueryInformationProcess_out (target w (th32ProcessID e)) = (STATUS_SUCCESS, pbi')
            \<and> peb_at (target w (th32ProcessID e)) (PebBaseAddress pbi') = Some peb'
            \<and> params_at (target w (th32ProcessID e)) (ProcessParameters peb') = Some upp'
            \<and> ReadProcessMemory (memory (target w (th32ProcessID e))) (Buffer (CommandLine upp'))
                 (unat (Length (CommandLine upp'))) = Some bytes
            \<and> cb_cmdline (delivered w e) =
                 Text (map Some (take (2 * (unat (Length (CommandLine upp')) div 2)) bytes)
                       @ [Some 0, Some 0])))"
proof (intro conjI impI)
  assume a: "fst (GetProcessCommandLine w pid p nm n s)"
  from GetProcessCommandLine_True_result [OF a] obtain nm1 pbi' peb' upp' bytes where
    c: "NtQueryInformationProcess_out (target w pid) = (STATUS_SUCCESS, pbi')"
       "peb_at (target w pid) (PebBaseAddress pbi') = Some peb'"
       "params_at (target w pid) (ProcessParameters peb') = Some upp'"
       "ReadProcessMemory (memory (target w pid)) (Buffer (CommandLine upp'))
               (unat (Length (CommandLine upp'))) = Some bytes"
       "length bytes = unat (Length (CommandLine upp'))"
    and r: "GetProcessCommandLine w pid p nm n s =
        (True, Some (length (heap s)), nm1,
         s\<lparr>heap := heap s @
           [Some (map Some (take (2 * (unat (Length (CommandLine upp')) div 2)) bytes)
                  @ [Some 0, Some 0])]\<rparr>)"
    by blast
  let ?len = "unat (Length (CommandLine upp'))"
  let ?buf = "map Some (take (2 * (?len div 2)) bytes) @ [Some 0, Some (0::BYTE)]"
  have k: "2 * (?len div 2) \<le> ?len" by arith
  have l: "length ?buf = 2 * (?len div 2 + 1)"
    using c(5) k by simp
  have i: "None \<notin> set ?buf" by auto
  have ev: "even ?len \<longrightarrow> ?buf = map Some bytes @ [Some 0, Some 0]"
  proof
    assume "even ?len"
    then have "2 * (?len div 2) = ?len" by simp
    with c(5) show "?buf = map Some bytes @ [Some 0, Some 0]" by simp
  qed
  have d: "fst (snd (GetProcessCommandLine w pid p nm n s)) = Some (length (heap s))"
    "deref (snd (snd (snd (GetProcessCommandLine w pid p nm n s)))) (Some (length (heap s)))
       = Text ?buf"
    "live_buffers (snd (snd (snd (GetProcessCommandLine w pid p nm n s)))) = live_buffers s @ [?buf]"
    unfolding r by (simp_all add: deref_new live_buffers_new)
  from c d l i ev
  show "\<exists>q buf pbi' peb' upp' bytes.
           NtQueryInformationProcess_out (target w pid) = (STATUS_SUCCESS, pbi')
         \<and> peb_at (target w pid) (PebBaseAddress pbi') = Some peb'
         \<and> params_at (target w pid) (ProcessParameters peb') = Some upp'
         \<and> ReadProcessMemory (memory (target w pid)) (Buffer (CommandLine upp'))
               (unat (Length (CommandLine upp'))) = Some bytes
         \<and> length bytes = unat (Length (CommandLine upp'))
         \<and> fst (snd (GetProcessCommandLine w pid p nm n s)) = Some q
         \<and> deref (snd (snd (snd (GetProcessCommandLine w pid p nm n s)))) (Some q) = Text buf
         \<and> buf = map Some (take (2 * (unat (Length (CommandLine upp')) div 2)) bytes)
                 @ [Some 0, Some 0]
         \<and> length buf = 2 * (unat (Length (CommandLine upp')) div 2 + 1)
         \<and> None \<notin> set buf
         \<and> (even (unat (Length (CommandLine upp'))) \<longrightarrow> buf = map Some bytes @ [Some 0, Some 0])
         \<and> live_buffers (snd (snd (snd (GetProcessCommandLine w pid p nm n s))))
             = live_buffers s @ [buf]"
    by blast
next
  assume "\<not> fst (GetProcessCommandLine w pid p nm n s)"
  then show "live_buffers (snd (snd (snd (GetProcessCommandLine w pid p nm n s)))) = live_buffers s"
    by (rule GetProcessCommandLine_False(2))
next
  assume "OpenProcess_ok (target w pid)
        \<and> GetModuleBaseNameW_out (target w pid) nm n = (m, nm1) \<and> m \<noteq> 0
        \<and> GetModuleHandleW_ntdll_ok w \<and> GetProcAddress_ok w
        \<and> NtQueryInformationProcess_out (target w pid) = (STATUS_SUCCESS, pbi)
        \<and> peb_at (target w pid) (PebBaseAddress pbi) = Some peb
        \<and> params_at (target w pid) (ProcessParameters peb) = Some upp
        \<and> ReadProcessMemory (memory (target w pid)) (Buffer (CommandLine upp))
             (unat (Length (CommandLine upp))) = None"
  then show "GetProcessCommandLine w pid p nm n s =
           (False, Some (length (heap s)), nm1, s\<lparr>heap := heap s @ [None]\<rparr>)"
    by (intro GetProcessCommandLine_third_read_fails) blast+
next
  show "cb_cmdline (delivered w e) = NULL
        \<or> (\<exists>pbi' peb' upp' bytes.
              NtQueryInformationProcess_out (target w (th32ProcessID e)) = (STATUS_SUCCESS, pbi')
            \<and> peb_at (target w (th32ProcessID e)) (PebBaseAddress pbi') = Some peb'
            \<and> params_at (target w (th32ProcessID e)) (ProcessParameters peb') = Some upp'
            \<and> ReadProcessMemory (memory (target w (th32ProcessID e))) (Buffer (CommandLine upp'))
                 (unat (Length (CommandLine upp'))) = Some bytes
            \<and> cb_cmdline (delivered w e) =
                 Text (map Some (take (2 * (unat (Length (CommandLine upp')) div 2)) bytes)
                       @ [Some 0, Some 0]))"
  proof (cases "fst (GetProcessCommandLine w (th32ProcessID e) None
      (wcsncpy_s_TRUNCATE (L ''<unknown>'') MAX_PATH (szExeFile e)) MAX_PATH initial_state)")
    case True
    from delivered_success [OF True] obtain nm1 pbi' peb' upp' bytes where
      "NtQueryInformationProcess_out (target w (th32ProcessID e)) = (STATUS_SUCCESS, pbi')"
      "peb_at (target w (th32ProcessID e)) (PebBaseAddress pbi') = Some peb'"
      "params_at (target w (th32ProcessID e)) (ProcessParameters peb') = Some upp'"
      "ReadProcessMemory (memory (target w (th32ProcessID e))) (Buffer (CommandLine upp'))
                 (unat (Length (CommandLine upp'))) = Some bytes"
      "delivered w e =
         \<lparr>cb_pid = th32ProcessID e, cb_process_name = nm1,
           cb_cmdline = Text (map Some (take (2 * (unat (Length (CommandLine upp')) div 2)) bytes)
                @ [Some 0, Some 0])\<rparr>"
      by blast
    then have "\<exists>pbi' peb' upp' bytes.
              NtQueryInformationProcess_out (target w (th32ProcessID e)) = (STATUS_SUCCESS, pbi')
            \<and> peb_at (target w (th32ProcessID e)) (PebBaseAddress pbi') = Some peb'
            \<and> params_at (target w (th32ProcessID e)) (ProcessParameters peb') = Some upp'
            \<and> ReadProcessMemory (memory (target w (th32ProcessID e))) (Buffer (CommandLine upp'))
                 (unat (Length (CommandLine upp'))) = Some bytes
            \<and> cb_cmdline (delivered w e) =
                 Text (map Some (take (2 * (unat (Length (CommandLine upp')) div 2)) bytes)
                       @ [Some 0, Some 0])"
      by (intro exI [of _ pbi'] exI [of _ peb'] exI [of _ upp'] exI [of _ bytes]) simp
    then show ?thesis by blast
  next
    case False
    from delivered_failure [OF False] show ?thesis by simp
  qed
qed


theorem command_line_copied_or_absent_witness:
  "fst (GetProcessCommandLine friendly_os 7 None (L ''notepad.exe'') MAX_PATH initial_state)
   \<and> (\<exists>q buf pbi' peb' upp' bytes.
           NtQueryInformationProcess_out (target friendly_os 7) = (STATUS_SUCCESS, pbi')
         \<and> peb_at (target friendly_os 7) (PebBaseAddress pbi') = Some peb'
         \<and> params_at (target friendly_os 7) (ProcessParameters peb') = Some upp'
         \<and> ReadProcessMemory (memory (target friendly_os 7)) (Buffer (CommandLine upp'))
               (unat (Length (CommandLine upp'))) = Some bytes
         \<and> length bytes = unat (Length (CommandLine upp'))
         \<and> fst (snd (GetProcessCommandLine friendly_os 7 None (L ''notepad.exe'') MAX_PATH
               initial_state)) = Some q
         \<and> deref (snd (snd (snd (GetProcessCommandLine friendly_os 7 None (L ''notepad.exe'')
               MAX_PATH initial_state)))) (Some q) = Text buf
         \<and> buf = map Some (take (2 * (unat (Length (CommandLine upp')) div 2)) bytes)
                 @ [Some 0, Some 0]
         \<and> length buf = 2 * (unat (Length (CommandLine upp')) div 2 + 1)
         \<and> None \<notin> set buf)
   \<and> ReadProcessMemory (memory (target friendly_os 7)) 0x3000 4 = Some [0x68, 0, 0x69, 0]
   \<and> deref (snd (snd (snd (GetProcessCommandLine friendly_os 7 None (L ''notepad.exe'')
         MAX_PATH initial_state)))) (Some 0)
       = Text [Some 0x68, Some 0, Some 0x69, Some 0, Some 0, Some 0]
   \<and> \<not> fst (GetProcessCommandLine unreadable_os 7 None (L ''notepad.exe'') MAX_PATH initial_state)
   \<and> live_buffers (snd (snd (snd (GetProcessCommandLine unreadable_os 7 None (L ''notepad.exe'')
         MAX_PATH initial_state)))) = []
   \<and> ReadProcessMemory (memory (target unreadable_os 7)) 0x3000 6 = None
   \<and> GetProcessCommandLine unreadable_os 7 None (L ''notepad.exe'') MAX_PATH initial_state
       = (False, Some 0, L ''notepad.exe'', initial_state\<lparr>heap := [None]\<rparr>)"
proof -
  let ?upp = "\<lparr>ImagePathName = \<lparr>Length = 0, MaximumLength = 0, Buffer = 0\<rparr>,
               CommandLine = \<lparr>Length = 6, MaximumLength = 8, Buffer = 0x3000\<rparr>\<rparr>"
  let ?peb = "\<lparr>BeingDebugged = 0, LoaderData = 0, ProcessParameters = 0x2000\<rparr>"
  let ?pbi = "\<lparr>PebBaseAddress = 0x1000, UniqueProcessId = 7\<rparr>"
  have a: "fst (GetProcessCommandLine friendly_os 7 None (L ''notepad.exe'') MAX_PATH initial_state)"
    by code_simp
  have b: "\<not> fst (GetProcessCommandLine unreadable_os 7 None (L ''notepad.exe'') MAX_PATH initial_state)"
    by code_simp
  have t: "target unreadable_os 7 = unreadable_target"
    by (simp add: unreadable_os_def)
  have r: "ReadProcessMemory (memory (target unreadable_os 7)) 0x3000 6 = None"
    unfolding t by code_simp
  have r4: "ReadProcessMemory (memory (target friendly_os 7)) 0x3000 4 = Some [0x68, 0, 0x69, 0]"
    by code_simp
  have v: "deref (snd (snd (snd (GetProcessCommandLine friendly_os 7 None (L ''notepad.exe'')
         MAX_PATH initial_state)))) (Some 0)
       = Text [Some 0x68, Some 0, Some 0x69, Some 0, Some 0, Some 0]"
    by code_simp
  have c: "OpenProcess_ok (target unreadable_os 7)
        \<and> GetModuleBaseNameW_out (target unreadable_os 7) (L ''notepad.exe'') MAX_PATH
            = (11, L ''notepad.exe'') \<and> (11::DWORD) \<noteq> 0
        \<and> GetModuleHandleW_ntdll_ok unreadable_os \<and> GetProcAddress_ok unreadable_os
        \<and> NtQueryInformationProcess_out (target unreadable_os 7) = (STATUS_SUCCESS, ?pbi)
        \<and> peb_at (target unreadable_os 7) (PebBaseAddress ?pbi) = Some ?peb
        \<and> params_at (target unreadable_os 7) (ProcessParameters ?peb) = Some ?upp
        \<and> ReadProcessMemory (memory (target unreadable_os 7)) (Buffer (CommandLine ?upp))
             (unat (Length (CommandLine ?upp))) = None"
    using r
    by (simp add: t unreadable_os_def friendly_os_def unreadable_target_def notepad_target_def
        STATUS_SUCCESS_def)
  note w1 = command_line_copied_or_absent
    [of friendly_os 7 None "L ''notepad.exe''" MAX_PATH initial_state]
  note w2 = command_line_copied_or_absent
    [of unreadable_os 7 None "L ''notepad.exe''" MAX_PATH initial_state 11 "L ''notepad.exe''"
        ?pbi ?peb ?upp]
  have d: "\<exists>q buf pbi' peb' upp' bytes.
           NtQueryInformationProcess_out (target friendly_os 7) = (STATUS_SUCCESS, pbi')
         \<and> peb_at (target friendly_os 7) (PebBaseAddress pbi') = Some peb'
         \<and> params_at (target friendly_os 7) (ProcessParameters peb') = Some upp'
         \<and> ReadProcessMemory (memory (target friendly_os 7)) (Buffer (CommandLine upp'))
               (unat (Length (CommandLine upp'))) = Some bytes
         \<and> length bytes = unat (Length (CommandLine upp'))
         \<and> fst (snd (GetProcessCommandLine friendly_os 7 None (L ''notepad.exe'') MAX_PATH
               initial_state)) = Some q
         \<and> deref (snd (snd (snd (GetProcessCommandLine friendly_os 7 None (L ''notepad.exe'')
               MAX_PATH initial_state)))) (Some q) = Text buf
         \<and> buf = map Some (take (2 * (unat (Length (CommandLine upp')) div 2)) bytes)
                 @ [Some 0, Some 0]
         \<and> length buf = 2 * (unat (Length (CommandLine upp')) div 2 + 1)
         \<and> None \<notin> set buf"
    using w1 a by blast
  have e: "live_buffers (snd (snd (snd (GetProcessCommandLine unreadable_os 7 None (L ''notepad.exe'')
         MAX_PATH initial_state)))) = live_buffers initial_state"
    using w2 b by blast
  have f: "GetProcessCommandLine unreadable_os 7 None (L ''notepad.exe'') MAX_PATH initial_state
       = (False, Some (length (heap initial_state)), L ''notepad.exe'',
          initial_state\<lparr>heap := heap initial_state @ [None]\<rparr>)"
    using w2 c by blast
  have g: "live_buffers initial_state = []" "heap initial_state = []"
    by (simp_all add: live_buffers_def initial_state_def List.map_filter_def)
  from a d r4 v b e f r show ?thesis by (simp add: g)
qed




end
